theory Spec2Isabelle
  imports Main "HOL-Library.Multiset"
begin

section \<open>JavaScript values used by the services\<close>

text \<open>
  Optional fields and parameters (\<^verbatim>\<open>x?: T\<close>) are \<open>T option\<close>, \<open>None\<close> for
  \<^verbatim>\<open>undefined\<close>. A thrown \<^verbatim>\<open>new Error(msg)\<close> is \<open>Error msg\<close>; a promise of
  an external collaborator (document store, AI backend) that rejects is \<open>Rejected\<close>.
\<close>

datatype error = Error string | Rejected

text \<open>Truthiness of an optional string: defined and not empty.\<close>

fun truthy_str :: "string option \<Rightarrow> bool" where
  "truthy_str None = False"
| "truthy_str (Some s) = (s \<noteq> [])"

text \<open>Truthiness of an optional boolean (\<^verbatim>\<open>isAdmin?: boolean\<close>).\<close>

fun truthy_bool :: "bool option \<Rightarrow> bool" where
  "truthy_bool None = False"
| "truthy_bool (Some b) = b"

text \<open>\<^verbatim>\<open>String.prototype.trim\<close>, on the white space of the Latin-1 range.\<close>

definition isWhiteSpace :: "char \<Rightarrow> bool" where
  "isWhiteSpace c = (c \<in> set [CHR 0x09, CHR 0x0A, CHR 0x0B, CHR 0x0C, CHR 0x0D, CHR 0x20, CHR 0xA0])"

definition trim :: "string \<Rightarrow> string" where
  "trim s = rev (dropWhile isWhiteSpace (rev (dropWhile isWhiteSpace s)))"

section \<open>AI provider dispatcher (services/ai)\<close>

datatype AIProviderType = Gemini | ChatGPT

record UserAISettings =
  geminiApiKey :: "string option"
  chatgptApiKey :: "string option"
  preferredProvider :: "AIProviderType option"

record AIRequestContext =
  ctx_title :: "string option"
  ctx_content :: "string option"
  imageBase64 :: "string option"
  customPrompt :: "string option"

record AIResponse =
  res_title :: "string option"
  res_content :: string
  res_tags :: "string list option"

text \<open>
  A provider object: its \<^verbatim>\<open>type\<close> and the \<^verbatim>\<open>apiKey\<close> the constructor of
  \<^verbatim>\<open>BaseAIProvider\<close> stored.
\<close>

record AIProvider =
  ptype :: AIProviderType
  apiKey :: string

definition GeminiProvider :: "string \<Rightarrow> AIProvider" where
  "GeminiProvider k = \<lparr>ptype = Gemini, apiKey = k\<rparr>"

definition ChatGPTProvider :: "string \<Rightarrow> AIProvider" where
  "ChatGPTProvider k = \<lparr>ptype = ChatGPT, apiKey = k\<rparr>"

text \<open>\<^verbatim>\<open>Boolean(this.apiKey && this.apiKey.trim().length > 0)\<close>\<close>

definition isConfigured :: "AIProvider \<Rightarrow> bool" where
  "isConfigured p = (apiKey p \<noteq> [] \<and> length (trim (apiKey p)) > 0)"

text \<open>
  The request a provider sends to its backend is the only network call of the dispatcher.
  The backend is a parameter: it maps a request to the parsed response or to a failure.
  Every operation returns, with its result, the list of requests it issued.
\<close>

type_synonym backend = "AIProvider \<Rightarrow> AIRequestContext \<Rightarrow> error + AIResponse"
type_synonym request = "AIProviderType \<times> AIRequestContext"

definition not_configured_msg :: "AIProviderType \<Rightarrow> string" where
  "not_configured_msg t =
     (case t of Gemini \<Rightarrow> ''Gemini API Key is not configured.''
              | ChatGPT \<Rightarrow> ''ChatGPT API Key is not configured.'')"

text \<open>\<^verbatim>\<open>GeminiProvider.enhance\<close> and \<^verbatim>\<open>ChatGPTProvider.enhance\<close>: the guard, then the request.\<close>

definition provider_enhance ::
  "backend \<Rightarrow> AIProvider \<Rightarrow> AIRequestContext \<Rightarrow> (error + AIResponse) \<times> request list" where
  "provider_enhance net p ctx =
     (if \<not> isConfigured p then (Inl (Error (not_configured_msg (ptype p))), [])
      else (net p ctx, [(ptype p, ctx)]))"

text \<open>
  \<^verbatim>\<open>AIService\<close>: the registry is a JavaScript \<^verbatim>\<open>Map\<close>, which iterates in insertion
  order, so it is an association list; \<open>Map_set\<close> replaces in place or appends.
\<close>

record AIService =
  providers :: "(AIProviderType \<times> AIProvider) list"
  preferred :: "AIProviderType option"

fun Map_set :: "'k \<Rightarrow> 'v \<Rightarrow> ('k \<times> 'v) list \<Rightarrow> ('k \<times> 'v) list" where
  "Map_set k v [] = [(k, v)]"
| "Map_set k v ((k', v') # m) = (if k' = k then (k, v) # m else (k', v') # Map_set k v m)"

definition Map_get :: "('k \<times> 'v) list \<Rightarrow> 'k \<Rightarrow> 'v option" where
  "Map_get m k = map_of m k"

definition configure :: "UserAISettings \<Rightarrow> AIService \<Rightarrow> AIService" where
  "configure settings svc =
     (let ps0 = [];
          ps1 = (case geminiApiKey settings of
                   None \<Rightarrow> ps0
                 | Some k \<Rightarrow>
                     if k \<noteq> [] \<and> isConfigured (GeminiProvider k)
                     then Map_set Gemini (GeminiProvider k) ps0 else ps0);
          ps2 = (case chatgptApiKey settings of
                   None \<Rightarrow> ps1
                 | Some k \<Rightarrow>
                     if k \<noteq> [] \<and> isConfigured (ChatGPTProvider k)
                     then Map_set ChatGPT (ChatGPTProvider k) ps1 else ps1)
      in \<lparr>providers = ps2, preferred = preferredProvider settings\<rparr>)"

definition getAvailableProviders :: "AIService \<Rightarrow> AIProvider list" where
  "getAvailableProviders svc = map snd (providers svc)"

definition hasAnyProvider :: "AIService \<Rightarrow> bool" where
  "hasAnyProvider svc = (length (providers svc) > 0)"

definition hasMultipleProviders :: "AIService \<Rightarrow> bool" where
  "hasMultipleProviders svc = (length (providers svc) > 1)"

definition first_value :: "('k \<times> 'v) list \<Rightarrow> 'v option" where
  "first_value m = (case m of [] \<Rightarrow> None | (k, v) # _ \<Rightarrow> Some v)"

definition getPreferredProvider :: "AIService \<Rightarrow> AIProvider option" where
  "getPreferredProvider svc =
     (case preferred svc of
        None \<Rightarrow> first_value (providers svc)
      | Some t \<Rightarrow>
          (case Map_get (providers svc) t of
             Some p \<Rightarrow> Some p
           | None \<Rightarrow> first_value (providers svc)))"

definition provider_name :: "AIProviderType \<Rightarrow> string" where
  "provider_name t = (case t of Gemini \<Rightarrow> ''gemini'' | ChatGPT \<Rightarrow> ''chatgpt'')"

definition no_provider_msg :: string where
  "no_provider_msg = ''No AI provider is configured. Please add your API key in Settings.''"

definition enhance ::
  "backend \<Rightarrow> AIService \<Rightarrow> AIRequestContext \<Rightarrow> AIProviderType option
     \<Rightarrow> (error + AIResponse) \<times> request list" where
  "enhance net svc ctx providerType =
     (case providerType of
        Some t \<Rightarrow>
          (case Map_get (providers svc) t of
             None \<Rightarrow> (Inl (Error (''Provider '' @ provider_name t @ '' is not configured'')), [])
           | Some p \<Rightarrow> provider_enhance net p ctx)
      | None \<Rightarrow>
          (case getPreferredProvider svc of
             None \<Rightarrow> (Inl (Error no_provider_msg), [])
           | Some p \<Rightarrow> provider_enhance net p ctx))"

section \<open>Data model (types.ts)\<close>

record Category =
  cat_id :: string
  name :: string
  color :: string
  icon :: string
  cat_isPublic :: "bool option"
  cat_ownerId :: "string option"

record Note =
  note_id :: string
  categoryId :: string
  title :: string
  content :: string
  imageUrl :: "string option"
  images :: "string list option"
  createdAt :: int
  updatedAt :: int
  tags :: "string list option"
  isPublic :: "bool option"
  ownerId :: "string option"

datatype ViewState =
  DASHBOARD | CATEGORY_DETAIL | NOTE_EDITOR | NOTE_VIEWER | CATEGORY_EDITOR | SETTINGS

text \<open>
  The data of a stored document is what the services wrote: any subset of the fields
  (\<^verbatim>\<open>Partial<Note>\<close> without the id, which is the key of the document), a field
  that is \<open>None\<close> being absent. \<^verbatim>\<open>removeUndefined\<close> drops the fields whose value is
  \<^verbatim>\<open>undefined\<close>, which this representation already identifies with absent fields.
\<close>

record CategoryDoc =
  c_name :: "string option"
  c_color :: "string option"
  c_icon :: "string option"
  c_isPublic :: "bool option"
  c_ownerId :: "string option"
  c_createdAt :: "int option"

record NoteDoc =
  d_categoryId :: "string option"
  d_title :: "string option"
  d_content :: "string option"
  d_imageUrl :: "string option"
  d_images :: "string list option"
  d_tags :: "string list option"
  d_createdAt :: "int option"
  d_updatedAt :: "int option"
  d_isPublic :: "bool option"
  d_ownerId :: "string option"

text \<open>
  The document \<^verbatim>\<open>users/{userId}/private/aiSettings\<close>: a field is absent, \<^verbatim>\<open>null\<close> or
  a value.
\<close>

datatype 'a field = Absent | Null | Val 'a

record AISettingsDoc =
  s_geminiApiKey :: "string field"
  s_chatgptApiKey :: "string field"
  s_preferredProvider :: "AIProviderType field"
  s_updatedAt :: "int field"

section \<open>The document store\<close>

text \<open>
  The hosted document database is a collaborator outside the repository. The model gives
  it what the services rely on: single-document writes that are applied whole or not at
  all, collection queries with a filter or an ordering, and calls that may reject.

  The two partitions: \<open>Private u\<close> holds \<^verbatim>\<open>users/u/categories\<close> and \<^verbatim>\<open>users/u/notes\<close>,
  \<open>Public\<close> holds \<^verbatim>\<open>public/data/categories\<close> and \<^verbatim>\<open>public/data/notes\<close>.
\<close>

datatype partition = Private string | Public

text \<open>The writes the store applied, in order.\<close>

datatype event =
    CategoryCreated partition string CategoryDoc
  | CategoryDeleted partition string
  | NoteCreated partition string NoteDoc
  | NoteUpdated partition string
  | NoteDeleted partition string
  | SettingsSet string

text \<open>
  The state of the store and of its environment. A collection is the list of its
  documents with their ids; an unordered query iterates it in list order. The environment
  decides what the services cannot: \<open>faults\<close> says, for each coming store call in turn,
  whether it rejects (a rejected call changes nothing; past the end of the list no call
  rejects); \<open>idSupply\<close> and \<open>nextId\<close> give the ids \<^verbatim>\<open>addDoc\<close> generates; \<open>clock\<close> is
  what \<^verbatim>\<open>Date.now()\<close> reads.
\<close>

record world =
  categoryDocs :: "partition \<Rightarrow> (string \<times> CategoryDoc) list"
  noteDocs :: "partition \<Rightarrow> (string \<times> NoteDoc) list"
  aiSettings :: "string \<Rightarrow> AISettingsDoc option"
  nextId :: nat
  idSupply :: "nat \<Rightarrow> string"
  faults :: "bool list"
  clock :: int
  trace :: "event list"

definition Date_now :: "world \<Rightarrow> int" where
  "Date_now w = clock w"

definition remove_doc :: "string \<Rightarrow> (string \<times> 'd) list \<Rightarrow> (string \<times> 'd) list" where
  "remove_doc i m = filter (\<lambda>kv. fst kv \<noteq> i) m"

text \<open>Does the coming store call reject?\<close>

definition rejects :: "world \<Rightarrow> bool" where
  "rejects w = (case faults w of [] \<Rightarrow> False | f # _ \<Rightarrow> f)"

definition called :: "world \<Rightarrow> world" where
  "called w = w\<lparr>faults := tl (faults w)\<rparr>"

text \<open>
  \<^verbatim>\<open>addDoc(collection, data)\<close>: a new document under a generated id.
  \<open>category_added\<close> and \<open>note_added\<close> are the store after the write.
\<close>

definition category_added :: "partition \<Rightarrow> string \<Rightarrow> CategoryDoc \<Rightarrow> world \<Rightarrow> world" where
  "category_added p i d w =
     (called w)\<lparr>categoryDocs := (categoryDocs w)(p := Map_set i d (categoryDocs w p)),
                 nextId := Suc (nextId w),
                 trace := trace w @ [CategoryCreated p i d]\<rparr>"

definition note_added :: "partition \<Rightarrow> string \<Rightarrow> NoteDoc \<Rightarrow> world \<Rightarrow> world" where
  "note_added p i d w =
     (called w)\<lparr>noteDocs := (noteDocs w)(p := Map_set i d (noteDocs w p)),
                 nextId := Suc (nextId w),
                 trace := trace w @ [NoteCreated p i d]\<rparr>"

definition addDoc_category :: "partition \<Rightarrow> CategoryDoc \<Rightarrow> world \<Rightarrow> (error + string) \<times> world" where
  "addDoc_category p d w =
     (if rejects w then (Inl Rejected, called w)
      else (Inr (idSupply w (nextId w)), category_added p (idSupply w (nextId w)) d w))"

definition addDoc_note :: "partition \<Rightarrow> NoteDoc \<Rightarrow> world \<Rightarrow> (error + string) \<times> world" where
  "addDoc_note p d w =
     (if rejects w then (Inl Rejected, called w)
      else (Inr (idSupply w (nextId w)), note_added p (idSupply w (nextId w)) d w))"

text \<open>\<^verbatim>\<open>deleteDoc(ref)\<close>: succeeds whether or not the document exists.\<close>

definition category_deleted :: "partition \<Rightarrow> string \<Rightarrow> world \<Rightarrow> world" where
  "category_deleted p i w =
     (called w)\<lparr>categoryDocs := (categoryDocs w)(p := remove_doc i (categoryDocs w p)),
                 trace := trace w @ [CategoryDeleted p i]\<rparr>"

definition note_deleted :: "partition \<Rightarrow> string \<Rightarrow> world \<Rightarrow> world" where
  "note_deleted p i w =
     (called w)\<lparr>noteDocs := (noteDocs w)(p := remove_doc i (noteDocs w p)),
                 trace := trace w @ [NoteDeleted p i]\<rparr>"

definition deleteDoc_category :: "partition \<Rightarrow> string \<Rightarrow> world \<Rightarrow> (error + unit) \<times> world" where
  "deleteDoc_category p i w =
     (if rejects w then (Inl Rejected, called w) else (Inr (), category_deleted p i w))"

definition deleteDoc_note :: "partition \<Rightarrow> string \<Rightarrow> world \<Rightarrow> (error + unit) \<times> world" where
  "deleteDoc_note p i w =
     (if rejects w then (Inl Rejected, called w) else (Inr (), note_deleted p i w))"

text \<open>
  \<^verbatim>\<open>updateDoc(ref, data)\<close>: overwrites the fields present in \<open>data\<close>; rejects when the
  document does not exist.
\<close>

definition or_else :: "'a option \<Rightarrow> 'a option \<Rightarrow> 'a option" where
  "or_else new old = (case new of None \<Rightarrow> old | Some v \<Rightarrow> Some v)"

definition merge_note :: "NoteDoc \<Rightarrow> NoteDoc \<Rightarrow> NoteDoc" where
  "merge_note new old =
     \<lparr>d_categoryId = or_else (d_categoryId new) (d_categoryId old),
      d_title = or_else (d_title new) (d_title old),
      d_content = or_else (d_content new) (d_content old),
      d_imageUrl = or_else (d_imageUrl new) (d_imageUrl old),
      d_images = or_else (d_images new) (d_images old),
      d_tags = or_else (d_tags new) (d_tags old),
      d_createdAt = or_else (d_createdAt new) (d_createdAt old),
      d_updatedAt = or_else (d_updatedAt new) (d_updatedAt old),
      d_isPublic = or_else (d_isPublic new) (d_isPublic old),
      d_ownerId = or_else (d_ownerId new) (d_ownerId old)\<rparr>"

definition note_updated :: "partition \<Rightarrow> string \<Rightarrow> NoteDoc \<Rightarrow> world \<Rightarrow> world" where
  "note_updated p i d w =
     (called w)\<lparr>noteDocs := (noteDocs w)(p := Map_set i d (noteDocs w p)),
                 trace := trace w @ [NoteUpdated p i]\<rparr>"

definition updateDoc_note :: "partition \<Rightarrow> string \<Rightarrow> NoteDoc \<Rightarrow> world \<Rightarrow> (error + unit) \<times> world" where
  "updateDoc_note p i d w =
     (if rejects w then (Inl Rejected, called w)
      else case map_of (noteDocs w p) i of
             None \<Rightarrow> (Inl Rejected, called w)
           | Some old \<Rightarrow> (Inr (), note_updated p i (merge_note d old) w))"

text \<open>
  \<^verbatim>\<open>getDocs(query(collection, ...))\<close>. \<^verbatim>\<open>where("categoryId", "==", c)\<close> keeps the
  documents whose field equals \<open>c\<close>; \<^verbatim>\<open>orderBy(field)\<close> keeps the documents that have
  the field and sorts them by it (documents with equal keys stay in collection order).
\<close>

definition getDocs_categories ::
  "partition \<Rightarrow> world \<Rightarrow> (error + (string \<times> CategoryDoc) list) \<times> world" where
  "getDocs_categories p w =
     (if rejects w then (Inl Rejected, called w) else (Inr (categoryDocs w p), called w))"

definition getDocs_notes ::
  "partition \<Rightarrow> world \<Rightarrow> (error + (string \<times> NoteDoc) list) \<times> world" where
  "getDocs_notes p w =
     (if rejects w then (Inl Rejected, called w) else (Inr (noteDocs w p), called w))"

definition where_categoryId :: "string \<Rightarrow> (string \<times> NoteDoc) list \<Rightarrow> (string \<times> NoteDoc) list" where
  "where_categoryId c ds = filter (\<lambda>kv. d_categoryId (snd kv) = Some c) ds"

definition orderBy_createdAt_asc :: "(string \<times> CategoryDoc) list \<Rightarrow> (string \<times> CategoryDoc) list" where
  "orderBy_createdAt_asc ds =
     sort_key (\<lambda>kv. the (c_createdAt (snd kv))) (filter (\<lambda>kv. c_createdAt (snd kv) \<noteq> None) ds)"

definition orderBy_updatedAt_desc :: "(string \<times> NoteDoc) list \<Rightarrow> (string \<times> NoteDoc) list" where
  "orderBy_updatedAt_desc ds =
     sort_key (\<lambda>kv. - the (d_updatedAt (snd kv))) (filter (\<lambda>kv. d_updatedAt (snd kv) \<noteq> None) ds)"

text \<open>\<^verbatim>\<open>setDoc(ref, data, {merge: true})\<close> and \<^verbatim>\<open>getDoc(ref)\<close> on the settings document.\<close>

definition field_or_else :: "'a field \<Rightarrow> 'a field \<Rightarrow> 'a field" where
  "field_or_else new old = (case new of Absent \<Rightarrow> old | _ \<Rightarrow> new)"

definition merge_settings :: "AISettingsDoc \<Rightarrow> AISettingsDoc \<Rightarrow> AISettingsDoc" where
  "merge_settings new old =
     \<lparr>s_geminiApiKey = field_or_else (s_geminiApiKey new) (s_geminiApiKey old),
      s_chatgptApiKey = field_or_else (s_chatgptApiKey new) (s_chatgptApiKey old),
      s_preferredProvider = field_or_else (s_preferredProvider new) (s_preferredProvider old),
      s_updatedAt = field_or_else (s_updatedAt new) (s_updatedAt old)\<rparr>"

definition setDoc_settings_merge :: "string \<Rightarrow> AISettingsDoc \<Rightarrow> world \<Rightarrow> (error + unit) \<times> world" where
  "setDoc_settings_merge u d w =
     (if rejects w then (Inl Rejected, called w)
      else (Inr (), (called w)\<lparr>aiSettings :=
                                  (aiSettings w)(u := Some (case aiSettings w u of
                                                             None \<Rightarrow> d
                                                           | Some old \<Rightarrow> merge_settings d old)),
                                trace := trace w @ [SettingsSet u]\<rparr>))"

definition getDoc_settings :: "string \<Rightarrow> world \<Rightarrow> (error + AISettingsDoc option) \<times> world" where
  "getDoc_settings u w =
     (if rejects w then (Inl Rejected, called w) else (Inr (aiSettings w u), called w))"

section \<open>The visibility store (services/dbService.ts)\<close>

text \<open>
  A fetched object \<^verbatim>\<open>{id: doc.id, ...doc.data(), isPublic: b}\<close> is the pair of the id
  and the data with \<open>isPublic\<close> overwritten. The \<^verbatim>\<open>try\<close>/\<^verbatim>\<open>catch\<close> of a read path
  turns a rejected call into the empty list.
\<close>

definition tag_category :: "bool \<Rightarrow> string \<times> CategoryDoc \<Rightarrow> string \<times> CategoryDoc" where
  "tag_category b kv = (fst kv, (snd kv)\<lparr>c_isPublic := Some b\<rparr>)"

definition tag_note :: "bool \<Rightarrow> string \<times> NoteDoc \<Rightarrow> string \<times> NoteDoc" where
  "tag_note b kv = (fst kv, (snd kv)\<lparr>d_isPublic := Some b\<rparr>)"

definition fetchCategories :: "string \<Rightarrow> world \<Rightarrow> (string \<times> CategoryDoc) list \<times> world" where
  "fetchCategories userId w =
     (case getDocs_categories (Private userId) w of
        (Inl e, w1) \<Rightarrow> ([], w1)
      | (Inr privateSnapshot, w1) \<Rightarrow>
          (let privateCategories = map (tag_category False) (orderBy_createdAt_asc privateSnapshot)
           in case getDocs_categories Public w1 of
                (Inl e, w2) \<Rightarrow> ([], w2)
              | (Inr publicSnapshot, w2) \<Rightarrow>
                  (let publicCategories = map (tag_category True) (orderBy_createdAt_asc publicSnapshot)
                   in (publicCategories @ privateCategories, w2))))"

definition fetchNotes :: "string \<Rightarrow> world \<Rightarrow> (string \<times> NoteDoc) list \<times> world" where
  "fetchNotes userId w =
     (case getDocs_notes (Private userId) w of
        (Inl e, w1) \<Rightarrow> ([], w1)
      | (Inr privateSnapshot, w1) \<Rightarrow>
          (let privateNotes = map (tag_note False) (orderBy_updatedAt_desc privateSnapshot)
           in case getDocs_notes Public w1 of
                (Inl e, w2) \<Rightarrow> ([], w2)
              | (Inr publicSnapshot, w2) \<Rightarrow>
                  (let publicNotes = map (tag_note True) (orderBy_updatedAt_desc publicSnapshot)
                   in (publicNotes @ privateNotes, w2))))"

definition fetchPublicCategories :: "world \<Rightarrow> (string \<times> CategoryDoc) list \<times> world" where
  "fetchPublicCategories w =
     (case getDocs_categories Public w of
        (Inl e, w1) \<Rightarrow> ([], w1)
      | (Inr snapshot, w1) \<Rightarrow> (map (tag_category True) (orderBy_createdAt_asc snapshot), w1))"

definition fetchPublicNotes :: "world \<Rightarrow> (string \<times> NoteDoc) list \<times> world" where
  "fetchPublicNotes w =
     (case getDocs_notes Public w of
        (Inl e, w1) \<Rightarrow> ([], w1)
      | (Inr snapshot, w1) \<Rightarrow> (map (tag_note True) (orderBy_updatedAt_desc snapshot), w1))"

definition deleteCategory :: "string \<Rightarrow> string \<Rightarrow> bool option \<Rightarrow> world \<Rightarrow> (error + unit) \<times> world" where
  "deleteCategory userId categoryId' isPublic' w =
     (if truthy_bool isPublic' then (Inl (Error ''Cannot delete public categories''), w)
      else deleteDoc_category (Private userId) categoryId' w)"

text \<open>
  \<^verbatim>\<open>saveNote\<close>. The argument \<^verbatim>\<open>note\<close> is given as its \<^verbatim>\<open>id\<close> and the rest of its
  fields, the way the update path destructures it. On the create path the id is
  \<^verbatim>\<open>undefined\<close> or the empty string; the model stores no \<^verbatim>\<open>id\<close> field in either case.
\<close>

definition saveNote ::
  "string \<Rightarrow> string option \<times> NoteDoc \<Rightarrow> bool option \<Rightarrow> bool option \<Rightarrow> world
     \<Rightarrow> (error + string \<times> bool) \<times> world" where
  "saveNote userId note isAdmin categoryIsPublic w =
     (let data = snd note in
      if truthy_str (fst note) then
        (if truthy_bool (d_isPublic data) then
           (if \<not> truthy_bool isAdmin then (Inl (Error ''Only admin can edit public notes''), w)
            else case updateDoc_note Public (the (fst note))
                        (data\<lparr>d_updatedAt := Some (Date_now w)\<rparr>) w of
                   (Inl e, w1) \<Rightarrow> (Inl e, w1)
                 | (Inr _, w1) \<Rightarrow> (Inr (the (fst note), True), w1))
         else
           (case updateDoc_note (Private userId) (the (fst note))
                   (data\<lparr>d_updatedAt := Some (Date_now w)\<rparr>) w of
              (Inl e, w1) \<Rightarrow> (Inl e, w1)
            | (Inr _, w1) \<Rightarrow> (Inr (the (fst note), False), w1)))
      else
        (let shouldBePublic = (truthy_bool isAdmin \<and> truthy_bool categoryIsPublic) in
         if shouldBePublic then
           (case addDoc_note Public
                   (data\<lparr>d_ownerId := Some userId, d_isPublic := Some True,
                          d_createdAt := Some (Date_now w), d_updatedAt := Some (Date_now w)\<rparr>) w of
              (Inl e, w1) \<Rightarrow> (Inl e, w1)
            | (Inr newId, w1) \<Rightarrow> (Inr (newId, True), w1))
         else
           (case addDoc_note (Private userId)
                   (data\<lparr>d_ownerId := Some userId, d_isPublic := Some False,
                          d_createdAt := Some (Date_now w), d_updatedAt := Some (Date_now w)\<rparr>) w of
              (Inl e, w1) \<Rightarrow> (Inl e, w1)
            | (Inr newId, w1) \<Rightarrow> (Inr (newId, False), w1))))"

definition deleteNote ::
  "string \<Rightarrow> string \<Rightarrow> bool option \<Rightarrow> bool option \<Rightarrow> world \<Rightarrow> (error + unit) \<times> world" where
  "deleteNote userId noteId isPublic' isAdmin w =
     (if truthy_bool isPublic' then
        (if \<not> truthy_bool isAdmin then (Inl (Error ''Only admin can delete public notes''), w)
         else deleteDoc_note Public noteId w)
      else deleteDoc_note (Private userId) noteId w)"

text \<open>
  \<^verbatim>\<open>migrateNotesToCategory\<close>: one query of the user's private notes, then one update per
  document found. \<^verbatim>\<open>Promise.all\<close> issues every update and rejects when one of them did.
\<close>

definition only_categoryId :: "string \<Rightarrow> NoteDoc" where
  "only_categoryId c =
     \<lparr>d_categoryId = Some c, d_title = None, d_content = None, d_imageUrl = None,
      d_images = None, d_tags = None, d_createdAt = None, d_updatedAt = None,
      d_isPublic = None, d_ownerId = None\<rparr>"

fun update_all :: "string \<Rightarrow> string \<Rightarrow> (string \<times> NoteDoc) list \<Rightarrow> world \<Rightarrow> (error + unit) \<times> world" where
  "update_all userId toCatId [] w = (Inr (), w)"
| "update_all userId toCatId (d # ds) w =
     (case updateDoc_note (Private userId) (fst d) (only_categoryId toCatId) w of
        (r, w1) \<Rightarrow>
          (case update_all userId toCatId ds w1 of
             (rs, w2) \<Rightarrow> ((case r of Inl e \<Rightarrow> Inl e | Inr _ \<Rightarrow> rs), w2)))"

definition migrateNotesToCategory :: "string \<Rightarrow> string \<Rightarrow> string \<Rightarrow> world \<Rightarrow> (error + unit) \<times> world" where
  "migrateNotesToCategory userId fromCatId toCatId w =
     (case getDocs_notes (Private userId) w of
        (Inl e, w1) \<Rightarrow> (Inl e, w1)
      | (Inr snapshot, w1) \<Rightarrow> update_all userId toCatId (where_categoryId fromCatId snapshot) w1)"

text \<open>
  \<^verbatim>\<open>toggleNotePublish\<close>. Its two branches differ in the destination collection, the
  flag written, the origin collection and the guard of the delete only; \<open>move_note\<close> is
  their common body.
\<close>

definition cleanNote_of :: "string \<Rightarrow> Note \<Rightarrow> int \<Rightarrow> NoteDoc" where
  "cleanNote_of userId note now =
     \<lparr>d_categoryId = Some (categoryId note), d_title = Some (title note),
      d_content = Some (content note), d_imageUrl = imageUrl note, d_images = None,
      d_tags = tags note, d_createdAt = Some (createdAt note), d_updatedAt = Some now,
      d_isPublic = None, d_ownerId = Some userId\<rparr>"

definition move_note ::
  "partition \<Rightarrow> partition \<Rightarrow> bool \<Rightarrow> bool \<Rightarrow> NoteDoc \<Rightarrow> string \<Rightarrow> world
     \<Rightarrow> (error + string \<times> bool) \<times> world" where
  "move_note dst src flag inSource cleanNote oldId w =
     (case addDoc_note dst (cleanNote\<lparr>d_isPublic := Some flag\<rparr>) w of
        (Inl e, w1) \<Rightarrow> (Inl e, w1)
      | (Inr newId, w1) \<Rightarrow>
          (if inSource then
             (case deleteDoc_note src oldId w1 of
                (Inl e, w2) \<Rightarrow> (Inl e, w2)
              | (Inr _, w2) \<Rightarrow> (Inr (newId, flag), w2))
           else (Inr (newId, flag), w1)))"

definition toggleNotePublish ::
  "string \<Rightarrow> Note \<Rightarrow> bool \<Rightarrow> world \<Rightarrow> (error + string \<times> bool) \<times> world" where
  "toggleNotePublish userId note makePublic w =
     (let cleanNote = cleanNote_of userId note (Date_now w) in
      if makePublic then
        move_note Public (Private userId) True (\<not> truthy_bool (isPublic note)) cleanNote (note_id note) w
      else
        move_note (Private userId) Public False (truthy_bool (isPublic note)) cleanNote (note_id note) w)"

text \<open>
  \<^verbatim>\<open>toggleCategoryPublish\<close>. \<open>migrate_notes\<close> is the \<^verbatim>\<open>for\<close> loop over the notes of
  the category (the same in both branches up to the collections and the flag),
  \<open>move_category\<close> the common body of the branches. \<^verbatim>\<open>migratedNoteIds\<close> is a
  JavaScript \<^verbatim>\<open>Map\<close>.
\<close>

definition migrated_note :: "string \<Rightarrow> string \<Rightarrow> bool \<Rightarrow> NoteDoc \<Rightarrow> int \<Rightarrow> NoteDoc" where
  "migrated_note userId newCategoryId flag noteData now =
     \<lparr>d_categoryId = Some newCategoryId, d_title = d_title noteData,
      d_content = d_content noteData, d_imageUrl = d_imageUrl noteData, d_images = None,
      d_tags = d_tags noteData, d_createdAt = d_createdAt noteData, d_updatedAt = Some now,
      d_isPublic = Some flag, d_ownerId = Some userId\<rparr>"

fun migrate_notes ::
  "string \<Rightarrow> string \<Rightarrow> partition \<Rightarrow> partition \<Rightarrow> bool \<Rightarrow> (string \<times> NoteDoc) list
     \<Rightarrow> (string \<times> string) list \<Rightarrow> world \<Rightarrow> (error + (string \<times> string) list) \<times> world" where
  "migrate_notes userId newCategoryId dst src flag [] migratedNoteIds w = (Inr migratedNoteIds, w)"
| "migrate_notes userId newCategoryId dst src flag (noteDoc # rest) migratedNoteIds w =
     (case addDoc_note dst (migrated_note userId newCategoryId flag (snd noteDoc) (Date_now w)) w of
        (Inl e, w1) \<Rightarrow> (Inl e, w1)
      | (Inr newNoteId, w1) \<Rightarrow>
          (case deleteDoc_note src (fst noteDoc) w1 of
             (Inl e, w2) \<Rightarrow> (Inl e, w2)
           | (Inr _, w2) \<Rightarrow>
               migrate_notes userId newCategoryId dst src flag rest
                 (Map_set (fst noteDoc) newNoteId migratedNoteIds) w2))"

definition cleanCategory_of :: "string \<Rightarrow> Category \<Rightarrow> bool \<Rightarrow> int \<Rightarrow> CategoryDoc" where
  "cleanCategory_of userId category flag now =
     \<lparr>c_name = Some (name category), c_color = Some (color category),
      c_icon = Some (icon category), c_isPublic = Some flag,
      c_ownerId = Some userId, c_createdAt = Some now\<rparr>"

definition move_category ::
  "string \<Rightarrow> Category \<Rightarrow> partition \<Rightarrow> partition \<Rightarrow> bool \<Rightarrow> bool \<Rightarrow> world
     \<Rightarrow> (error + string \<times> bool \<times> (string \<times> string) list) \<times> world" where
  "move_category userId category dst src flag inSource w =
     (case addDoc_category dst (cleanCategory_of userId category flag (Date_now w)) w of
        (Inl e, w1) \<Rightarrow> (Inl e, w1)
      | (Inr newCategoryId, w1) \<Rightarrow>
          (if inSource then
             (case getDocs_notes src w1 of
                (Inl e, w2) \<Rightarrow> (Inl e, w2)
              | (Inr snapshot, w2) \<Rightarrow>
                  (case migrate_notes userId newCategoryId dst src flag
                          (where_categoryId (cat_id category) snapshot) [] w2 of
                     (Inl e, w3) \<Rightarrow> (Inl e, w3)
                   | (Inr migratedNoteIds, w3) \<Rightarrow>
                       (case deleteDoc_category src (cat_id category) w3 of
                          (Inl e, w4) \<Rightarrow> (Inl e, w4)
                        | (Inr _, w4) \<Rightarrow> (Inr (newCategoryId, flag, migratedNoteIds), w4))))
           else (Inr (newCategoryId, flag, []), w1)))"

definition toggleCategoryPublish ::
  "string \<Rightarrow> Category \<Rightarrow> bool \<Rightarrow> world
     \<Rightarrow> (error + string \<times> bool \<times> (string \<times> string) list) \<times> world" where
  "toggleCategoryPublish userId category makePublic w =
     (if makePublic then
        move_category userId category Public (Private userId) True
          (\<not> truthy_bool (cat_isPublic category)) w
      else
        move_category userId category (Private userId) Public False
          (truthy_bool (cat_isPublic category)) w)"

text \<open>\<^verbatim>\<open>saveUserAISettings\<close> and \<^verbatim>\<open>fetchUserAISettings\<close>.\<close>

definition str_or_null :: "string option \<Rightarrow> string field" where
  "str_or_null x = (if truthy_str x then Val (the x) else Null)"

definition provider_or_null :: "AIProviderType option \<Rightarrow> AIProviderType field" where
  "provider_or_null x = (case x of None \<Rightarrow> Null | Some t \<Rightarrow> Val t)"

definition str_or_undefined :: "string field \<Rightarrow> string option" where
  "str_or_undefined x = (case x of Val s \<Rightarrow> (if s \<noteq> [] then Some s else None) | _ \<Rightarrow> None)"

definition provider_or_undefined :: "AIProviderType field \<Rightarrow> AIProviderType option" where
  "provider_or_undefined x = (case x of Val t \<Rightarrow> Some t | _ \<Rightarrow> None)"

definition saveUserAISettings :: "string \<Rightarrow> UserAISettings \<Rightarrow> world \<Rightarrow> (error + unit) \<times> world" where
  "saveUserAISettings userId settings w =
     (let cleanSettings =
            \<lparr>s_geminiApiKey = str_or_null (geminiApiKey settings),
             s_chatgptApiKey = str_or_null (chatgptApiKey settings),
             s_preferredProvider = provider_or_null (preferredProvider settings),
             s_updatedAt = Val (Date_now w)\<rparr>
      in setDoc_settings_merge userId cleanSettings w)"

definition fetchUserAISettings :: "string \<Rightarrow> world \<Rightarrow> UserAISettings option \<times> world" where
  "fetchUserAISettings userId w =
     (case getDoc_settings userId w of
        (Inl e, w1) \<Rightarrow> (None, w1)
      | (Inr None, w1) \<Rightarrow> (None, w1)
      | (Inr (Some data), w1) \<Rightarrow>
          (Some \<lparr>geminiApiKey = str_or_undefined (s_geminiApiKey data),
                 chatgptApiKey = str_or_undefined (s_chatgptApiKey data),
                 preferredProvider = provider_or_undefined (s_preferredProvider data)\<rparr>, w1))"

section \<open>The application state machine (App.tsx, views/DashboardView.tsx)\<close>

text \<open>
  A \<open>char\<close> is a code unit below 256, read as the code point of that number (U+0000 to
  U+00FF). \<^verbatim>\<open>String.prototype.toLowerCase\<close> maps the capital letters of that range,
  \<open>A\<close> to \<open>Z\<close> and U+00C0 to U+00DE without the multiplication sign U+00D7, to the
  letter 32 code points above, and leaves every other code point of the range as it is.
  \<^verbatim>\<open>s.includes(q)\<close>: \<open>q\<close> occurs in \<open>s\<close> as a contiguous substring.
\<close>

definition upperCase :: string where
  "upperCase =
     ''ABCDEFGHIJKLMNOPQRSTUVWXYZ''
     @ [CHR 0xC0, CHR 0xC1, CHR 0xC2, CHR 0xC3, CHR 0xC4, CHR 0xC5, CHR 0xC6,
        CHR 0xC7, CHR 0xC8, CHR 0xC9, CHR 0xCA, CHR 0xCB, CHR 0xCC, CHR 0xCD,
        CHR 0xCE, CHR 0xCF, CHR 0xD0, CHR 0xD1, CHR 0xD2, CHR 0xD3, CHR 0xD4,
        CHR 0xD5, CHR 0xD6, CHR 0xD8, CHR 0xD9, CHR 0xDA, CHR 0xDB, CHR 0xDC,
        CHR 0xDD, CHR 0xDE]"

definition lowerCase :: string where
  "lowerCase =
     ''abcdefghijklmnopqrstuvwxyz''
     @ [CHR 0xE0, CHR 0xE1, CHR 0xE2, CHR 0xE3, CHR 0xE4, CHR 0xE5, CHR 0xE6,
        CHR 0xE7, CHR 0xE8, CHR 0xE9, CHR 0xEA, CHR 0xEB, CHR 0xEC, CHR 0xED,
        CHR 0xEE, CHR 0xEF, CHR 0xF0, CHR 0xF1, CHR 0xF2, CHR 0xF3, CHR 0xF4,
        CHR 0xF5, CHR 0xF6, CHR 0xF8, CHR 0xF9, CHR 0xFA, CHR 0xFB, CHR 0xFC,
        CHR 0xFD, CHR 0xFE]"

definition toLowerChar :: "char \<Rightarrow> char" where
  "toLowerChar c = (case map_of (zip upperCase lowerCase) c of None \<Rightarrow> c | Some l \<Rightarrow> l)"

definition toLowerCase :: "string \<Rightarrow> string" where
  "toLowerCase s = map toLowerChar s"

fun includes_str :: "string \<Rightarrow> string \<Rightarrow> bool" where
  "includes_str [] q = (q = [])"
| "includes_str (c # s) q = (take (length q) (c # s) = q \<or> includes_str s q)"

record AppState =
  st_categories :: "Category list"
  st_notes :: "Note list"
  activeCategoryId :: "string option"
  view :: ViewState

text \<open>The derived list \<^verbatim>\<open>filteredNotes\<close> of \<^verbatim>\<open>AuthenticatedApp\<close> (and of the guest app).\<close>

definition filteredNotes :: "Note list \<Rightarrow> string option \<Rightarrow> string \<Rightarrow> Note list" where
  "filteredNotes ns activeCategoryId' searchQuery =
     filter (\<lambda>n. includes_str (toLowerCase (title n)) (toLowerCase searchQuery)
                 \<or> includes_str (toLowerCase (content n)) (toLowerCase searchQuery))
       (filter (\<lambda>n. if truthy_str activeCategoryId'
                     then categoryId n = the activeCategoryId' else True) ns)"

text \<open>The memoised \<^verbatim>\<open>searchResults\<close> of \<^verbatim>\<open>DashboardView\<close>; \<open>None\<close> is \<^verbatim>\<open>null\<close>.\<close>

definition note_matches :: "Category list \<Rightarrow> string \<Rightarrow> Note \<Rightarrow> bool" where
  "note_matches cs query note =
     (let category = find (\<lambda>c. cat_id c = categoryId note) cs;
          categoryName = (case category of None \<Rightarrow> [] | Some c \<Rightarrow> toLowerCase (name c))
      in includes_str (toLowerCase (title note)) query
         \<or> includes_str (toLowerCase (content note)) query
         \<or> includes_str categoryName query
         \<or> (case tags note of
               None \<Rightarrow> False
             | Some ts \<Rightarrow> list_ex (\<lambda>tag. includes_str (toLowerCase tag) query) ts))"

definition searchResults ::
  "Category list \<Rightarrow> Note list \<Rightarrow> string \<Rightarrow> (Category list \<times> Note list) option" where
  "searchResults cs ns searchQuery =
     (if trim searchQuery = [] then None
      else let query = trim (toLowerCase searchQuery);
               matchedCategories = filter (\<lambda>cat. includes_str (toLowerCase (name cat)) query) cs;
               matchedNotes = filter (note_matches cs query) ns
           in Some (matchedCategories, matchedNotes))"

text \<open>
  \<^verbatim>\<open>handleDeleteCategory\<close>. \<open>user\<close> is the uid of the signed-in user, if any;
  \<open>confirmed\<close> is the answer to the \<^verbatim>\<open>confirm\<close> dialog. The handler has no
  \<^verbatim>\<open>try\<close>/\<^verbatim>\<open>catch\<close>: a rejected store call ends it with the state as it then is.
  \<open>delete_and_leave\<close> is the part after the \<^verbatim>\<open>if (fallbackCat)\<close> block.
\<close>

definition delete_and_leave ::
  "string \<Rightarrow> string \<Rightarrow> AppState \<Rightarrow> world \<Rightarrow> (error + unit) \<times> AppState \<times> world" where
  "delete_and_leave uid i st w =
     (case deleteCategory uid i None w of
        (Inl e, w1) \<Rightarrow> (Inl e, st, w1)
      | (Inr _, w1) \<Rightarrow>
          (Inr (), st\<lparr>st_categories := filter (\<lambda>c. cat_id c \<noteq> i) (st_categories st),
                       activeCategoryId := None, view := DASHBOARD\<rparr>, w1))"

definition handleDeleteCategory ::
  "string option \<Rightarrow> bool \<Rightarrow> string \<Rightarrow> AppState \<Rightarrow> world \<Rightarrow> (error + unit) \<times> AppState \<times> world" where
  "handleDeleteCategory user confirmed i st w =
     (case user of
        None \<Rightarrow> (Inr (), st, w)
      | Some uid \<Rightarrow>
          (if length (st_categories st) \<le> 0 then (Inr (), st, w)
           else if confirmed then
             (case find (\<lambda>c. cat_id c \<noteq> i) (st_categories st) of
                Some fallbackCat \<Rightarrow>
                  (case migrateNotesToCategory uid i (cat_id fallbackCat) w of
                     (Inl e, w1) \<Rightarrow> (Inl e, st, w1)
                   | (Inr _, w1) \<Rightarrow>
                       delete_and_leave uid i
                         (st\<lparr>st_notes :=
                               map (\<lambda>n. if categoryId n = i
                                         then n\<lparr>categoryId := cat_id fallbackCat\<rparr> else n)
                                 (st_notes st)\<rparr>) w1)
              | None \<Rightarrow> delete_and_leave uid i st w)
           else (Inr (), st, w)))"

section \<open>Notions used to state the properties\<close>





text \<open>\<open>q\<close> occurs in \<open>s\<close> as a contiguous substring.\<close>

definition occurs_in :: "string \<Rightarrow> string \<Rightarrow> bool" where
  "occurs_in q s = (\<exists>pre post. s = pre @ q @ post)"

section \<open>Example stores\<close>

text \<open>
  An id supply, a store with two private categories and three private notes of user
  \<open>u1\<close> (two of them in \<open>catA\<close>), and the category \<open>catA\<close> as the application holds it.
\<close>

definition example_ids :: "nat \<Rightarrow> string" where
  "example_ids k = CHR ''#'' # replicate k (CHR ''i'')"

definition example_note :: "string \<Rightarrow> string \<Rightarrow> NoteDoc" where
  "example_note c t =
     \<lparr>d_categoryId = Some c, d_title = Some t, d_content = Some ''Y'', d_imageUrl = None,
      d_images = None, d_tags = Some [''tag''], d_createdAt = Some 1, d_updatedAt = Some 2,
      d_isPublic = Some False, d_ownerId = Some ''u1''\<rparr>"

definition example_category_doc :: "string \<Rightarrow> int \<Rightarrow> CategoryDoc" where
  "example_category_doc n t =
     \<lparr>c_name = Some n, c_color = Some ''bg-red-500'', c_icon = Some ''Book'',
      c_isPublic = Some False, c_ownerId = Some ''u1'', c_createdAt = Some t\<rparr>"

definition example_world :: "bool list \<Rightarrow> world" where
  "example_world fs =
     \<lparr>categoryDocs = (\<lambda>p. if p = Private ''u1''
                           then [(''catA'', example_category_doc ''A'' 1),
                                 (''catB'', example_category_doc ''B'' 2)]
                           else []),
      noteDocs = (\<lambda>p. if p = Private ''u1''
                       then [(''n1'', example_note ''catA'' ''one''),
                             (''n2'', example_note ''catB'' ''two''),
                             (''n3'', example_note ''catA'' ''three'')]
                       else []),
      aiSettings = (\<lambda>u. None), nextId = 0, idSupply = example_ids, faults = fs,
      clock = 1000, trace = []\<rparr>"

definition example_category :: Category where
  "example_category =
     \<lparr>cat_id = ''catA'', name = ''A'', color = ''bg-red-500'', icon = ''Book'',
      cat_isPublic = Some False, cat_ownerId = Some ''u1''\<rparr>"

definition empty_world :: world where
  "empty_world =
     \<lparr>categoryDocs = (\<lambda>p. []), noteDocs = (\<lambda>p. []), aiSettings = (\<lambda>u. None),
      nextId = 0, idSupply = example_ids, faults = [], clock = 1000, trace = []\<rparr>"

text \<open>The note of scenario A: \<^verbatim>\<open>{title: "X", content: "Y", categoryId: "catA"}\<close>.\<close>

definition scenarioA_note :: NoteDoc where
  "scenarioA_note =
     \<lparr>d_categoryId = Some ''catA'', d_title = Some ''X'', d_content = Some ''Y'',
      d_imageUrl = None, d_images = None, d_tags = None, d_createdAt = None,
      d_updatedAt = None, d_isPublic = None, d_ownerId = None\<rparr>"



definition example_image_note :: Note where
  "example_image_note =
     \<lparr>note_id = ''n1'', categoryId = ''catA'', title = ''T'', content = ''C'',
      imageUrl = Some ''img1'', images = Some [''img1'', ''img2''], createdAt = 1,
      updatedAt = 2, tags = None, isPublic = Some False, ownerId = Some ''u1''\<rparr>"

definition image_world :: world where
  "image_world =
     empty_world\<lparr>noteDocs := (\<lambda>p. if p = Private ''u1''
                                     then [(''n1'', \<lparr>d_categoryId = Some ''catA'', d_title = Some ''T'',
                                                    d_content = Some ''C'', d_imageUrl = Some ''img1'',
                                                    d_images = Some [''img1'', ''img2''],
                                                    d_tags = None, d_createdAt = Some 1,
                                                    d_updatedAt = Some 2, d_isPublic = Some False,
                                                    d_ownerId = Some ''u1''\<rparr>)]
                                     else [])\<rparr>"

text \<open>A store with two public categories, stored out of creation order.\<close>

definition fetch_world :: "bool list \<Rightarrow> world" where
  "fetch_world fs =
     (example_world fs)\<lparr>categoryDocs :=
        (categoryDocs (example_world fs))
          (Public := [(''pc2'', \<lparr>c_name = Some ''P2'', c_color = Some ''bg-blue-500'',
                                c_icon = Some ''Globe'', c_isPublic = None,
                                c_ownerId = Some ''admin'', c_createdAt = Some 5\<rparr>),
                      (''pc1'', \<lparr>c_name = Some ''P1'', c_color = Some ''bg-blue-500'',
                                c_icon = Some ''Globe'', c_isPublic = Some True,
                                c_ownerId = Some ''admin'', c_createdAt = Some 3\<rparr>)])\<rparr>"

text \<open>A store in which user \<open>u1\<close> has saved both credentials before.\<close>

definition settings_world :: world where
  "settings_world =
     empty_world\<lparr>aiSettings := (\<lambda>u. if u = ''u1''
                                       then Some \<lparr>s_geminiApiKey = Val ''g-old'',
                                                   s_chatgptApiKey = Val ''c-old'',
                                                   s_preferredProvider = Val ChatGPT,
                                                   s_updatedAt = Val 5\<rparr>
                                       else None)\<rparr>"

text \<open>A note whose tag, but neither title nor content, contains the word \<open>urgent\<close>.\<close>

definition search_note :: Note where
  "search_note =
     \<lparr>note_id = ''n1'', categoryId = ''catA'', title = ''Shopping List'', content = ''Milk'',
      imageUrl = None, images = None, createdAt = 1, updatedAt = 2, tags = Some [''Urgent''],
      isPublic = Some False, ownerId = Some ''u1''\<rparr>"

text \<open>A note titled \<open>CAF\<close>, U+00C9, \<open> MENU\<close>: its title has a capital letter beyond ASCII.\<close>

definition cafe_note :: Note where
  "cafe_note =
     \<lparr>note_id = ''n2'', categoryId = ''catA'', title = ''CAF'' @ [CHR 0xC9] @ '' MENU'',
      content = ''Y'', imageUrl = None, images = None, createdAt = 1, updatedAt = 2,
      tags = None, isPublic = Some False, ownerId = Some ''u1''\<rparr>"

text \<open>
  The application state over \<open>example_world\<close>, and a state and store with the single
  category \<open>catA\<close> and one note in it.
\<close>

definition example_note_obj :: "string \<Rightarrow> string \<Rightarrow> string \<Rightarrow> Note" where
  "example_note_obj i c t =
     \<lparr>note_id = i, categoryId = c, title = t, content = ''Y'', imageUrl = None, images = None,
      createdAt = 1, updatedAt = 2, tags = Some [''tag''], isPublic = Some False,
      ownerId = Some ''u1''\<rparr>"

definition example_state :: AppState where
  "example_state =
     \<lparr>st_categories = [example_category, example_category\<lparr>cat_id := ''catB'', name := ''B''\<rparr>],
      st_notes = [example_note_obj ''n1'' ''catA'' ''one'', example_note_obj ''n2'' ''catB'' ''two'',
                  example_note_obj ''n3'' ''catA'' ''three''],
      activeCategoryId = Some ''catA'', view = CATEGORY_EDITOR\<rparr>"

definition single_state :: AppState where
  "single_state =
     \<lparr>st_categories = [example_category],
      st_notes = [example_note_obj ''n1'' ''catA'' ''one''],
      activeCategoryId = Some ''catA'', view = CATEGORY_EDITOR\<rparr>"

definition single_world :: world where
  "single_world =
     empty_world\<lparr>categoryDocs := (\<lambda>p. if p = Private ''u1''
                                         then [(''catA'', example_category_doc ''A'' 1)] else []),
                  noteDocs := (\<lambda>p. if p = Private ''u1''
                                     then [(''n1'', example_note ''catA'' ''one'')] else [])\<rparr>"

section \<open>Properties of the dispatcher\<close>

text \<open>
  Claim C7. With an empty registry, \<open>enhance\<close> without a provider kind fails with the
  no-provider-configured error and issues no request; and \<open>configure\<close>, a total function
  that cannot raise, registers no provider when every credential present in the settings
  is blank after trimming, as \<^verbatim>\<open>{geminiApiKey: "   "}\<close> is.
\<close>

theorem enhance_gated_configure_blank:
  "(providers svc = [] \<longrightarrow> enhance net svc ctx None = (Inl (Error no_provider_msg), []))
   \<and> ((\<forall>k. geminiApiKey settings = Some k \<longrightarrow> trim k = [])
        \<and> (\<forall>k. chatgptApiKey settings = Some k \<longrightarrow> trim k = [])
       \<longrightarrow> providers (configure settings svc') = [])
   \<and> providers (configure \<lparr>geminiApiKey = Some ''   '', chatgptApiKey = None,
                            preferredProvider = None\<rparr> svc') = []"
proof (intro conjI impI)
  assume "providers svc = []"
  then show "enhance net svc ctx None = (Inl (Error no_provider_msg), [])"
    by (simp add: enhance_def getPreferredProvider_def first_value_def Map_get_def
             split: option.splits)
next
  assume "(\<forall>k. geminiApiKey settings = Some k \<longrightarrow> trim k = [])
          \<and> (\<forall>k. chatgptApiKey settings = Some k \<longrightarrow> trim k = [])"
  then show "providers (configure settings svc') = []"
    by (auto simp: configure_def isConfigured_def GeminiProvider_def ChatGPTProvider_def
             split: option.splits)
next
  show "providers (configure \<lparr>geminiApiKey = Some ''   '', chatgptApiKey = None,
                             preferredProvider = None\<rparr> svc') = []"
    by (simp add: configure_def isConfigured_def GeminiProvider_def trim_def isWhiteSpace_def)
qed

theorem enhance_gated_configure_blank_witness:
  "providers \<lparr>providers = [], preferred = Some Gemini\<rparr> = []
   \<and> enhance (\<lambda>p c. Inl Rejected) \<lparr>providers = [], preferred = Some Gemini\<rparr>
        \<lparr>ctx_title = Some ''t'', ctx_content = None, imageBase64 = None, customPrompt = None\<rparr> None
       = (Inl (Error no_provider_msg), [])
   \<and> trim ''  '' = []
   \<and> providers (configure \<lparr>geminiApiKey = Some ''  '', chatgptApiKey = Some [],
                            preferredProvider = Some ChatGPT\<rparr>
                  \<lparr>providers = [(Gemini, GeminiProvider ''key'')], preferred = None\<rparr>) = []"
proof -
  have t: "trim ''  '' = []" by (simp add: trim_def isWhiteSpace_def)
  have t0: "trim [] = []" by (simp add: trim_def)
  show ?thesis
    using enhance_gated_configure_blank
      [of "\<lparr>providers = [], preferred = Some Gemini\<rparr>" "\<lambda>p c. Inl Rejected"
          "\<lparr>ctx_title = Some ''t'', ctx_content = None, imageBase64 = None, customPrompt = None\<rparr>"
          "\<lparr>geminiApiKey = Some ''  '', chatgptApiKey = Some [], preferredProvider = Some ChatGPT\<rparr>"
          "\<lparr>providers = [(Gemini, GeminiProvider ''key'')], preferred = None\<rparr>"]
      t t0
    by simp
qed

section \<open>Collections and store writes\<close>

lemma map_of_Map_set: "map_of (Map_set k v m) k' = (if k' = k then Some v else map_of m k')"
  by (induction m) auto

lemma map_fst_Map_set:
  "map fst (Map_set k v m) = (if k \<in> set (map fst m) then map fst m else map fst m @ [k])"
  by (induction m) (auto simp del: set_map intro: rev_image_eqI)

lemma map_of_remove_doc: "map_of (remove_doc i m) k = (if k = i then None else map_of m k)"
  by (induction m) (auto simp: remove_doc_def)

lemma called_simps [simp]:
  "categoryDocs (called w) = categoryDocs w" "noteDocs (called w) = noteDocs w"
  "aiSettings (called w) = aiSettings w" "nextId (called w) = nextId w"
  "idSupply (called w) = idSupply w" "clock (called w) = clock w"
  "trace (called w) = trace w" "faults (called w) = tl (faults w)"
  by (simp_all add: called_def)

lemma note_added_simps [simp]:
  "categoryDocs (note_added p i d w) = categoryDocs w"
  "noteDocs (note_added p i d w) q = (if q = p then Map_set i d (noteDocs w p) else noteDocs w q)"
  "aiSettings (note_added p i d w) = aiSettings w" "nextId (note_added p i d w) = Suc (nextId w)"
  "idSupply (note_added p i d w) = idSupply w" "clock (note_added p i d w) = clock w"
  "trace (note_added p i d w) = trace w @ [NoteCreated p i d]"
  "faults (note_added p i d w) = tl (faults w)"
  by (simp_all add: note_added_def)

lemma note_deleted_simps [simp]:
  "categoryDocs (note_deleted p i w) = categoryDocs w"
  "noteDocs (note_deleted p i w) q = (if q = p then remove_doc i (noteDocs w p) else noteDocs w q)"
  "aiSettings (note_deleted p i w) = aiSettings w" "nextId (note_deleted p i w) = nextId w"
  "idSupply (note_deleted p i w) = idSupply w" "clock (note_deleted p i w) = clock w"
  "trace (note_deleted p i w) = trace w @ [NoteDeleted p i]"
  "faults (note_deleted p i w) = tl (faults w)"
  by (simp_all add: note_deleted_def)

lemma category_added_simps [simp]:
  "noteDocs (category_added p i d w) = noteDocs w"
  "categoryDocs (category_added p i d w) q
     = (if q = p then Map_set i d (categoryDocs w p) else categoryDocs w q)"
  "aiSettings (category_added p i d w) = aiSettings w"
  "nextId (category_added p i d w) = Suc (nextId w)"
  "idSupply (category_added p i d w) = idSupply w" "clock (category_added p i d w) = clock w"
  "trace (category_added p i d w) = trace w @ [CategoryCreated p i d]"
  "faults (category_added p i d w) = tl (faults w)"
  by (simp_all add: category_added_def)

lemma category_deleted_simps [simp]:
  "noteDocs (category_deleted p i w) = noteDocs w"
  "categoryDocs (category_deleted p i w) q
     = (if q = p then remove_doc i (categoryDocs w p) else categoryDocs w q)"
  "aiSettings (category_deleted p i w) = aiSettings w"
  "nextId (category_deleted p i w) = nextId w"
  "idSupply (category_deleted p i w) = idSupply w" "clock (category_deleted p i w) = clock w"
  "trace (category_deleted p i w) = trace w @ [CategoryDeleted p i]"
  "faults (category_deleted p i w) = tl (faults w)"
  by (simp_all add: category_deleted_def)

section \<open>Creating a note\<close>

text \<open>
  Claim C4. On the create path of \<open>saveNote\<close> (no usable \<^verbatim>\<open>note.id\<close>) the call
  returns a result unless the store rejects the write; the returned \<open>isPublic\<close> is true
  exactly when \<open>isAdmin\<close> and \<open>categoryIsPublic\<close> are both true; the new document is in
  the partition the result names, carries that flag and the caller as owner, and no other
  partition changes. When the store rejects, no note is created.
\<close>

theorem saveNote_create_visibility:
  assumes "\<not> truthy_str (fst note)"
  shows "(\<not> rejects w \<longrightarrow> (\<exists>r w'. saveNote userId note isAdmin categoryIsPublic w = (Inr r, w')))
    \<and> (case saveNote userId note isAdmin categoryIsPublic w of
          (Inl e, w') \<Rightarrow> noteDocs w' = noteDocs w
        | (Inr (newId, pub), w') \<Rightarrow>
            pub = (isAdmin = Some True \<and> categoryIsPublic = Some True)
            \<and> (\<exists>d. map_of (noteDocs w' (if pub then Public else Private userId)) newId = Some d
                   \<and> d_isPublic d = Some pub \<and> d_ownerId d = Some userId
                   \<and> d_title d = d_title (snd note) \<and> d_content d = d_content (snd note)
                   \<and> d_categoryId d = d_categoryId (snd note))
            \<and> (\<forall>q. q \<noteq> (if pub then Public else Private userId) \<longrightarrow> noteDocs w' q = noteDocs w q))"
proof -
  have tb: "\<And>b. truthy_bool b = (b = Some True)"
    by (case_tac b) auto
  show ?thesis
    using assms
    by (auto simp: saveNote_def addDoc_note_def Let_def map_of_Map_set tb)
qed

theorem saveNote_create_visibility_witness:
  "\<not> truthy_str (fst (None, scenarioA_note))
   \<and> fst (saveNote ''user1'' (None, scenarioA_note) (Some False) (Some True) empty_world)
       = Inr (''#'', False)
   \<and> map fst (noteDocs (snd (saveNote ''user1'' (None, scenarioA_note) (Some False) (Some True)
                                empty_world)) (Private ''user1'')) = [''#'']
   \<and> noteDocs (snd (saveNote ''user1'' (None, scenarioA_note) (Some False) (Some True)
                      empty_world)) Public = []"
  using saveNote_create_visibility
    [of "(None, scenarioA_note)" empty_world "''user1''" "Some False" "Some True"]
  by (simp add: saveNote_def addDoc_note_def rejects_def empty_world_def example_ids_def
        Date_now_def)

section \<open>Publishing a category: the order of the writes\<close>

lemma migrate_notes_Cons_cases:
  assumes "migrate_notes u nc dst src flag (nd # rest) m w = (r, w')"
  obtains
    (add_rejected) "rejects w" "r = Inl Rejected" "w' = called w"
  | (delete_rejected) "\<not> rejects w"
      "rejects (note_added dst (idSupply w (nextId w)) (migrated_note u nc flag (snd nd) (clock w)) w)"
      "r = Inl Rejected"
      "w' = called (note_added dst (idSupply w (nextId w)) (migrated_note u nc flag (snd nd) (clock w)) w)"
  | (continue) "\<not> rejects w"
      "\<not> rejects (note_added dst (idSupply w (nextId w)) (migrated_note u nc flag (snd nd) (clock w)) w)"
      "migrate_notes u nc dst src flag rest (Map_set (fst nd) (idSupply w (nextId w)) m)
         (note_deleted src (fst nd)
            (note_added dst (idSupply w (nextId w)) (migrated_note u nc flag (snd nd) (clock w)) w))
       = (r, w')"
  using assms
  by (auto simp: addDoc_note_def deleteDoc_note_def Date_now_def split: if_splits)

lemma migrate_notes_env:
  "migrate_notes u nc dst src flag ds m w = (r, w') \<Longrightarrow>
     idSupply w' = idSupply w \<and> clock w' = clock w \<and> nextId w \<le> nextId w'
     \<and> categoryDocs w' = categoryDocs w \<and> aiSettings w' = aiSettings w"
proof (induction ds arbitrary: m w)
  case Nil
  then show ?case by simp
next
  case (Cons nd rest)
  from Cons.prems show ?case
  proof (cases rule: migrate_notes_Cons_cases)
    case continue
    from Cons.IH [OF continue(3)] show ?thesis by simp
  qed simp_all
qed












lemmas run_defs = toggleCategoryPublish_def move_category_def addDoc_category_def rejects_def
  getDocs_notes_def where_categoryId_def addDoc_note_def deleteDoc_note_def deleteDoc_category_def
  Date_now_def example_world_def example_category_def example_ids_def example_note_def
  cleanCategory_of_def migrated_note_def remove_doc_def



section \<open>Publishing a category: completeness of the cascade\<close>

lemma migrate_notes_map_frame:
  "migrate_notes u nc dst src flag ds m w = (Inr m', w') \<Longrightarrow> k \<notin> fst ` set ds \<Longrightarrow>
     map_of m' k = map_of m k"
proof (induction ds arbitrary: m w)
  case Nil
  then show ?case by simp
next
  case (Cons nd rest)
  from Cons.prems(1) show ?case
  proof (cases rule: migrate_notes_Cons_cases)
    case continue
    from Cons.IH [OF continue(3)] Cons.prems(2) show ?thesis
      by (simp add: map_of_Map_set)
  qed simp_all
qed

lemma migrate_notes_keys:
  "migrate_notes u nc dst src flag ds m w = (Inr m', w') \<Longrightarrow> distinct (map fst ds) \<Longrightarrow>
     set (map fst ds) \<inter> set (map fst m) = {} \<Longrightarrow> map fst m' = map fst m @ map fst ds"
proof (induction ds arbitrary: m w)
  case Nil
  then show ?case by simp
next
  case (Cons nd rest)
  from Cons.prems(1) show ?case
  proof (cases rule: migrate_notes_Cons_cases)
    case continue
    from Cons.prems(2,3)
    have "distinct (map fst rest)"
      and "set (map fst rest) \<inter> set (map fst (Map_set (fst nd) (idSupply w (nextId w)) m)) = {}"
      and "map fst (Map_set (fst nd) (idSupply w (nextId w)) m) = map fst m @ [fst nd]"
      by (auto simp: map_fst_Map_set)
    with Cons.IH [OF continue(3)] show ?thesis by simp
  qed simp_all
qed

lemma migrate_notes_dst_frame:
  "migrate_notes u nc dst src flag ds m w = (r, w') \<Longrightarrow> src \<noteq> dst \<Longrightarrow>
     \<forall>k\<ge>nextId w. idSupply w k \<noteq> j \<Longrightarrow>
     map_of (noteDocs w' dst) j = map_of (noteDocs w dst) j"
proof (induction ds arbitrary: m w)
  case Nil
  then show ?case by simp
next
  case (Cons nd rest)
  from Cons.prems(3) have ne: "idSupply w (nextId w) \<noteq> j" by blast
  from Cons.prems(3) have later: "\<forall>k\<ge>Suc (nextId w). idSupply w k \<noteq> j" by auto
  from Cons.prems(1) show ?case
  proof (cases rule: migrate_notes_Cons_cases)
    case continue
    from ne later show ?thesis
      using Cons.IH [OF continue(3) Cons.prems(2)] Cons.prems(2)
      by (simp add: map_of_Map_set)
  qed (use ne in \<open>simp_all add: map_of_Map_set\<close>)
qed

lemma migrate_notes_src_frame:
  "migrate_notes u nc dst src flag ds m w = (r, w') \<Longrightarrow> src \<noteq> dst \<Longrightarrow>
     map_of (noteDocs w src) j = None \<Longrightarrow> map_of (noteDocs w' src) j = None"
proof (induction ds arbitrary: m w)
  case Nil
  then show ?case by simp
next
  case (Cons nd rest)
  from Cons.prems(1) show ?case
  proof (cases rule: migrate_notes_Cons_cases)
    case continue
    from Cons.IH [OF continue(3) Cons.prems(2)] Cons.prems(2,3) show ?thesis
      by (simp add: map_of_remove_doc)
  qed (use Cons.prems in simp_all)
qed

lemma migrate_notes_copies:
  "migrate_notes u nc dst src flag ds m w = (Inr m', w') \<Longrightarrow> src \<noteq> dst \<Longrightarrow>
     inj (idSupply w) \<Longrightarrow> distinct (map fst ds) \<Longrightarrow> nd \<in> set ds \<Longrightarrow>
     (\<exists>newId. map_of m' (fst nd) = Some newId
        \<and> map_of (noteDocs w' dst) newId = Some (migrated_note u nc flag (snd nd) (clock w)))
     \<and> map_of (noteDocs w' src) (fst nd) = None"
proof (induction ds arbitrary: m w)
  case Nil
  then show ?case by simp
next
  case (Cons x rest)
  let ?new = "idSupply w (nextId w)"
  let ?w2 = "note_deleted src (fst x) (note_added dst ?new (migrated_note u nc flag (snd x) (clock w)) w)"
  from Cons.prems(1) show ?case
  proof (cases rule: migrate_notes_Cons_cases)
    case continue
    show ?thesis
    proof (cases "nd = x")
      case True
      from Cons.prems(4) have "fst x \<notin> fst ` set rest" by simp
      from migrate_notes_map_frame [OF continue(3) this]
      have m': "map_of m' (fst nd) = Some ?new"
        using True by (simp add: map_of_Map_set)
      have "\<forall>k\<ge>nextId ?w2. idSupply ?w2 k \<noteq> ?new"
      proof (intro allI impI notI)
        fix k assume "nextId ?w2 \<le> k" "idSupply ?w2 k = ?new"
        with Cons.prems(3) have "Suc (nextId w) \<le> k" "k = nextId w"
          by (auto dest: injD)
        then show False by simp
      qed
      from migrate_notes_dst_frame [OF continue(3) Cons.prems(2) this] Cons.prems(2)
      have d: "map_of (noteDocs w' dst) ?new = Some (migrated_note u nc flag (snd nd) (clock w))"
        using True by (simp add: map_of_Map_set)
      have "map_of (noteDocs ?w2 src) (fst x) = None"
        by (simp add: map_of_remove_doc)
      from migrate_notes_src_frame [OF continue(3) Cons.prems(2) this] m' d True
      show ?thesis by simp
    next
      case False
      with Cons.prems have "nd \<in> set rest" "distinct (map fst rest)" "inj (idSupply ?w2)"
        by simp_all
      from Cons.IH [OF continue(3) Cons.prems(2) this(3,2,1)] show ?thesis by simp
    qed
  qed simp_all
qed


lemma move_category_success:
  assumes "move_category u c dst src flag True w = (Inr (newId, pub, mg), w')"
  obtains w3 where "newId = idSupply w (nextId w)" "pub = flag"
    "migrate_notes u newId dst src flag (where_categoryId (cat_id c) (noteDocs w src)) []
        (called (category_added dst newId (cleanCategory_of u c flag (clock w)) w)) = (Inr mg, w3)"
    "w' = category_deleted src (cat_id c) w3"
  using assms
  by (auto simp: move_category_def addDoc_category_def getDocs_notes_def deleteDoc_category_def
        Date_now_def split: if_splits prod.splits sum.splits)

lemma distinct_where_categoryId:
  "distinct (map fst ds) \<Longrightarrow> distinct (map fst (where_categoryId c ds))"
  by (simp add: where_categoryId_def distinct_map_filter)

text \<open>
  Claim C1. Let \<open>toggleCategoryPublish\<close> with \<open>makePublic = true\<close> return without error
  on a private category, in a store whose id supply never repeats an id and whose
  private note collection has one document per id. Then every private note of the user
  that referenced the category before the call has exactly one entry in the returned
  map, the new id of that entry resolves in the public partition to a note with the new
  category id, the public flag and the title, content, image URL, tags and creation time
  of the old note, and the old note is gone from the private partition; the map has the
  ids of these notes as its keys, each once; the old category document is gone from the
  private partition and the new one is in the public partition.
\<close>

theorem toggleCategoryPublish_cascade_complete:
  assumes "toggleCategoryPublish userId category True w = (Inr (newId, pub, migratedNoteIds), w')"
    and "\<not> truthy_bool (cat_isPublic category)"
    and "inj (idSupply w)"
    and "distinct (map fst (noteDocs w (Private userId)))"
  shows "pub
    \<and> (\<forall>nd \<in> set (where_categoryId (cat_id category) (noteDocs w (Private userId))).
          \<exists>newNoteId d'.
             map_of migratedNoteIds (fst nd) = Some newNoteId
             \<and> map_of (noteDocs w' Public) newNoteId = Some d'
             \<and> d_categoryId d' = Some newId \<and> d_isPublic d' = Some True
             \<and> d_title d' = d_title (snd nd) \<and> d_content d' = d_content (snd nd)
             \<and> d_imageUrl d' = d_imageUrl (snd nd) \<and> d_tags d' = d_tags (snd nd)
             \<and> d_createdAt d' = d_createdAt (snd nd)
             \<and> map_of (noteDocs w' (Private userId)) (fst nd) = None)
    \<and> map fst migratedNoteIds
        = map fst (where_categoryId (cat_id category) (noteDocs w (Private userId)))
    \<and> distinct (map fst migratedNoteIds)
    \<and> map_of (categoryDocs w' (Private userId)) (cat_id category) = None
    \<and> map_of (categoryDocs w' Public) newId = Some (cleanCategory_of userId category True (clock w))"
proof -
  let ?refs = "where_categoryId (cat_id category) (noteDocs w (Private userId))"
  from assms(1,2)
  have "move_category userId category Public (Private userId) True True w
          = (Inr (newId, pub, migratedNoteIds), w')"
    by (simp add: toggleCategoryPublish_def)
  then obtain w3 where
    new: "newId = idSupply w (nextId w)" and pub: "pub = True"
    and loop: "migrate_notes userId newId Public (Private userId) True ?refs []
        (called (category_added Public newId (cleanCategory_of userId category True (clock w)) w))
        = (Inr migratedNoteIds, w3)"
    and w': "w' = category_deleted (Private userId) (cat_id category) w3"
    by (rule move_category_success)
  let ?w2 = "called (category_added Public newId (cleanCategory_of userId category True (clock w)) w)"
  have dist: "distinct (map fst ?refs)"
    using assms(4) by (rule distinct_where_categoryId)
  have ne: "Private userId \<noteq> Public" by simp
  have inj2: "inj (idSupply ?w2)" using assms(3) by simp
  have copies: "\<forall>nd \<in> set ?refs. \<exists>newNoteId d'.
             map_of migratedNoteIds (fst nd) = Some newNoteId
             \<and> map_of (noteDocs w' Public) newNoteId = Some d'
             \<and> d_categoryId d' = Some newId \<and> d_isPublic d' = Some True
             \<and> d_title d' = d_title (snd nd) \<and> d_content d' = d_content (snd nd)
             \<and> d_imageUrl d' = d_imageUrl (snd nd) \<and> d_tags d' = d_tags (snd nd)
             \<and> d_createdAt d' = d_createdAt (snd nd)
             \<and> map_of (noteDocs w' (Private userId)) (fst nd) = None"
  proof
    fix nd assume "nd \<in> set ?refs"
    from migrate_notes_copies [OF loop ne inj2 dist this] obtain newNoteId where
      "map_of migratedNoteIds (fst nd) = Some newNoteId"
      "map_of (noteDocs w3 Public) newNoteId = Some (migrated_note userId newId True (snd nd) (clock w))"
      "map_of (noteDocs w3 (Private userId)) (fst nd) = None"
      by auto
    then show "\<exists>newNoteId d'.
             map_of migratedNoteIds (fst nd) = Some newNoteId
             \<and> map_of (noteDocs w' Public) newNoteId = Some d'
             \<and> d_categoryId d' = Some newId \<and> d_isPublic d' = Some True
             \<and> d_title d' = d_title (snd nd) \<and> d_content d' = d_content (snd nd)
             \<and> d_imageUrl d' = d_imageUrl (snd nd) \<and> d_tags d' = d_tags (snd nd)
             \<and> d_createdAt d' = d_createdAt (snd nd)
             \<and> map_of (noteDocs w' (Private userId)) (fst nd) = None"
      unfolding w' by (simp add: migrated_note_def)
  qed
  have keys: "map fst migratedNoteIds = map fst ?refs"
    using migrate_notes_keys [OF loop dist] by simp
  from migrate_notes_env [OF loop]
  have cats: "categoryDocs w3 = categoryDocs ?w2" by simp
  have gone: "map_of (categoryDocs w' (Private userId)) (cat_id category) = None"
    unfolding w' by (simp add: map_of_remove_doc)
  have there: "map_of (categoryDocs w' Public) newId
                 = Some (cleanCategory_of userId category True (clock w))"
    unfolding w' by (simp add: cats map_of_Map_set)
  from pub copies keys dist gone there show ?thesis by simp
qed


lemma inj_example_ids: "inj example_ids"
  by (auto simp: inj_def example_ids_def)

lemma example_run_result:
  "fst (toggleCategoryPublish ''u1'' example_category True (example_world []))
     = Inr (''#'', True, [(''n1'', ''#i''), (''n3'', ''#ii'')])"
  by (simp add: run_defs)

theorem toggleCategoryPublish_cascade_complete_witness:
  "toggleCategoryPublish ''u1'' example_category True (example_world [])
     = (Inr (''#'', True, [(''n1'', ''#i''), (''n3'', ''#ii'')]),
        snd (toggleCategoryPublish ''u1'' example_category True (example_world [])))
   \<and> \<not> truthy_bool (cat_isPublic example_category)
   \<and> inj (idSupply (example_world []))
   \<and> distinct (map fst (noteDocs (example_world []) (Private ''u1'')))
   \<and> map fst [(''n1'', ''#i''), (''n3'', ''#ii'')]
       = map fst (where_categoryId (cat_id example_category)
                    (noteDocs (example_world []) (Private ''u1'')))
   \<and> map_of (categoryDocs (snd (toggleCategoryPublish ''u1'' example_category True (example_world [])))
         (Private ''u1'')) (cat_id example_category) = None"
proof -
  have h1: "toggleCategoryPublish ''u1'' example_category True (example_world [])
     = (Inr (''#'', True, [(''n1'', ''#i''), (''n3'', ''#ii'')]),
        snd (toggleCategoryPublish ''u1'' example_category True (example_world [])))"
    using example_run_result by (metis prod.collapse)
  have h2: "\<not> truthy_bool (cat_isPublic example_category)"
    by (simp add: example_category_def)
  have h3: "inj (idSupply (example_world []))"
    by (simp add: example_world_def inj_example_ids)
  have h4: "distinct (map fst (noteDocs (example_world []) (Private ''u1'')))"
    by (simp add: example_world_def)
  from toggleCategoryPublish_cascade_complete [OF h1 h2 h3 h4] h1 h2 h3 h4
  show ?thesis by blast
qed

section \<open>Publishing a note\<close>

lemmas note_run_defs = toggleNotePublish_def move_note_def addDoc_note_def deleteDoc_note_def
  rejects_def Date_now_def cleanNote_of_def empty_world_def example_ids_def remove_doc_def




text \<open>
  Claim C3 on the note \<open>n1\<close>, which has two images: after \<open>toggleNotePublish\<close> the old
  id is gone from the private partition and the new id resolves in the public partition,
  with the flag flipped and the title, content, first image, tags and creation time of
  the note, but the document read back has no \<open>images\<close> field while the input note has
  two images.
\<close>

theorem toggleNotePublish_loses_images:
  "fst (toggleNotePublish ''u1'' example_image_note True image_world) = Inr (''#'', True)
   \<and> map_of (noteDocs (snd (toggleNotePublish ''u1'' example_image_note True image_world)) Public) ''#''
       = Some \<lparr>d_categoryId = Some ''catA'', d_title = Some ''T'', d_content = Some ''C'',
                d_imageUrl = Some ''img1'', d_images = None, d_tags = None, d_createdAt = Some 1,
                d_updatedAt = Some 1000, d_isPublic = Some True, d_ownerId = Some ''u1''\<rparr>
   \<and> images example_image_note = Some [''img1'', ''img2'']
   \<and> map_of (noteDocs image_world (Private ''u1'')) ''n1''
       = Some \<lparr>d_categoryId = Some ''catA'', d_title = Some ''T'', d_content = Some ''C'',
                d_imageUrl = Some ''img1'', d_images = Some [''img1'', ''img2''], d_tags = None,
                d_createdAt = Some 1, d_updatedAt = Some 2, d_isPublic = Some False,
                d_ownerId = Some ''u1''\<rparr>
   \<and> map_of (noteDocs (snd (toggleNotePublish ''u1'' example_image_note True image_world))
        (Private ''u1'')) ''n1'' = None"
  by (simp add: note_run_defs example_image_note_def image_world_def)

section \<open>Read paths\<close>

lemma orderBy_createdAt_asc_sorted:
  "sorted (map (\<lambda>kv. the (c_createdAt (snd kv))) (orderBy_createdAt_asc ds))"
  by (simp add: orderBy_createdAt_asc_def)

lemma orderBy_createdAt_asc_mset:
  "mset (orderBy_createdAt_asc ds) = mset (filter (\<lambda>kv. c_createdAt (snd kv) \<noteq> None) ds)"
  by (simp add: orderBy_createdAt_asc_def)

lemma tag_category_fields:
  "tag_category b kv =
     (fst kv, \<lparr>c_name = c_name (snd kv), c_color = c_color (snd kv), c_icon = c_icon (snd kv),
               c_isPublic = Some b, c_ownerId = c_ownerId (snd kv),
               c_createdAt = c_createdAt (snd kv)\<rparr>)"
  by (cases "snd kv") (simp add: tag_category_def)

text \<open>
  Claim C8. Each read path returns a list, never an error. \<open>fetchCategories\<close> and
  \<open>fetchNotes\<close> make two store calls, \<open>fetchPublicCategories\<close> and \<open>fetchPublicNotes\<close>
  one; when a call rejects, the result is the empty list. When no call rejects, there
  are lists \<open>ps\<close> and \<open>qs\<close> of stored documents such that: \<open>ps\<close> holds exactly the
  documents of the public category collection that have a creation time, each as often
  as the collection has it, in ascending order of the stored creation time; \<open>qs\<close> holds
  the same of the user's private category collection; and \<open>fetchCategories\<close> returns,
  first for each document of \<open>ps\<close> in turn and then for each document of \<open>qs\<close> in turn,
  the id of the document with its stored name, color, icon, owner and creation time and
  with \<open>isPublic\<close> true for \<open>ps\<close> and false for \<open>qs\<close>.
\<close>

theorem read_paths_degrade_to_empty:
  "(rejects w \<or> rejects (called w) \<longrightarrow>
       fst (fetchCategories userId w) = [] \<and> fst (fetchNotes userId w) = [])
   \<and> (rejects w \<longrightarrow> fst (fetchPublicCategories w) = [] \<and> fst (fetchPublicNotes w) = [])
   \<and> (\<not> rejects w \<and> \<not> rejects (called w) \<longrightarrow>
        (\<exists>ps qs.
           mset ps = mset (filter (\<lambda>kv. c_createdAt (snd kv) \<noteq> None) (categoryDocs w Public))
           \<and> mset qs
               = mset (filter (\<lambda>kv. c_createdAt (snd kv) \<noteq> None) (categoryDocs w (Private userId)))
           \<and> sorted (map (\<lambda>kv. the (c_createdAt (snd kv))) ps)
           \<and> sorted (map (\<lambda>kv. the (c_createdAt (snd kv))) qs)
           \<and> fst (fetchCategories userId w)
               = map (\<lambda>kv. (fst kv, \<lparr>c_name = c_name (snd kv), c_color = c_color (snd kv),
                                   c_icon = c_icon (snd kv), c_isPublic = Some True,
                                   c_ownerId = c_ownerId (snd kv),
                                   c_createdAt = c_createdAt (snd kv)\<rparr>)) ps
                 @ map (\<lambda>kv. (fst kv, \<lparr>c_name = c_name (snd kv), c_color = c_color (snd kv),
                                   c_icon = c_icon (snd kv), c_isPublic = Some False,
                                   c_ownerId = c_ownerId (snd kv),
                                   c_createdAt = c_createdAt (snd kv)\<rparr>)) qs))"
proof (intro conjI impI)
  assume "rejects w \<or> rejects (called w)"
  then show "fst (fetchCategories userId w) = []" and "fst (fetchNotes userId w) = []"
    by (auto simp: fetchCategories_def fetchNotes_def getDocs_categories_def getDocs_notes_def)
next
  assume "rejects w"
  then show "fst (fetchPublicCategories w) = []" and "fst (fetchPublicNotes w) = []"
    by (auto simp: fetchPublicCategories_def fetchPublicNotes_def getDocs_categories_def
          getDocs_notes_def)
next
  assume ok: "\<not> rejects w \<and> \<not> rejects (called w)"
  let ?ps = "orderBy_createdAt_asc (categoryDocs w Public)"
  let ?qs = "orderBy_createdAt_asc (categoryDocs w (Private userId))"
  from ok have "fst (fetchCategories userId w)
                  = map (tag_category True) ?ps @ map (tag_category False) ?qs"
    by (simp add: fetchCategories_def getDocs_categories_def)
  then have res: "fst (fetchCategories userId w)
               = map (\<lambda>kv. (fst kv, \<lparr>c_name = c_name (snd kv), c_color = c_color (snd kv),
                                   c_icon = c_icon (snd kv), c_isPublic = Some True,
                                   c_ownerId = c_ownerId (snd kv),
                                   c_createdAt = c_createdAt (snd kv)\<rparr>)) ?ps
                 @ map (\<lambda>kv. (fst kv, \<lparr>c_name = c_name (snd kv), c_color = c_color (snd kv),
                                   c_icon = c_icon (snd kv), c_isPublic = Some False,
                                   c_ownerId = c_ownerId (snd kv),
                                   c_createdAt = c_createdAt (snd kv)\<rparr>)) ?qs"
    by (simp add: tag_category_fields [abs_def])
  have m: "mset ?ps = mset (filter (\<lambda>kv. c_createdAt (snd kv) \<noteq> None) (categoryDocs w Public))"
    "mset ?qs = mset (filter (\<lambda>kv. c_createdAt (snd kv) \<noteq> None) (categoryDocs w (Private userId)))"
    by (rule orderBy_createdAt_asc_mset)+
  have srt: "sorted (map (\<lambda>kv. the (c_createdAt (snd kv))) ?ps)"
    "sorted (map (\<lambda>kv. the (c_createdAt (snd kv))) ?qs)"
    by (rule orderBy_createdAt_asc_sorted)+
  from m srt res show "(\<exists>ps qs.
                mset ps = mset (filter (\<lambda>kv. c_createdAt (snd kv) \<noteq> None) (categoryDocs w Public))
                \<and> mset qs
                    = mset (filter (\<lambda>kv. c_createdAt (snd kv) \<noteq> None) (categoryDocs w (Private userId)))
                \<and> sorted (map (\<lambda>kv. the (c_createdAt (snd kv))) ps)
                \<and> sorted (map (\<lambda>kv. the (c_createdAt (snd kv))) qs)
                \<and> fst (fetchCategories userId w)
                    = map (\<lambda>kv. (fst kv, \<lparr>c_name = c_name (snd kv), c_color = c_color (snd kv),
                                        c_icon = c_icon (snd kv), c_isPublic = Some True,
                                        c_ownerId = c_ownerId (snd kv),
                                        c_createdAt = c_createdAt (snd kv)\<rparr>)) ps
                      @ map (\<lambda>kv. (fst kv, \<lparr>c_name = c_name (snd kv), c_color = c_color (snd kv),
                                        c_icon = c_icon (snd kv), c_isPublic = Some False,
                                        c_ownerId = c_ownerId (snd kv),
                                        c_createdAt = c_createdAt (snd kv)\<rparr>)) qs)"
    by (intro exI [of _ ?ps] exI [of _ ?qs] conjI)
qed

theorem read_paths_degrade_to_empty_witness:
  "rejects (fetch_world [True])
   \<and> fst (fetchCategories ''u1'' (fetch_world [True])) = []
   \<and> fst (fetchPublicNotes (fetch_world [True])) = []
   \<and> \<not> rejects (fetch_world []) \<and> \<not> rejects (called (fetch_world []))
   \<and> fst (fetchCategories ''u1'' (fetch_world []))
       = [(''pc1'', \<lparr>c_name = Some ''P1'', c_color = Some ''bg-blue-500'', c_icon = Some ''Globe'',
                     c_isPublic = Some True, c_ownerId = Some ''admin'', c_createdAt = Some 3\<rparr>),
          (''pc2'', \<lparr>c_name = Some ''P2'', c_color = Some ''bg-blue-500'', c_icon = Some ''Globe'',
                     c_isPublic = Some True, c_ownerId = Some ''admin'', c_createdAt = Some 5\<rparr>),
          (''catA'', \<lparr>c_name = Some ''A'', c_color = Some ''bg-red-500'', c_icon = Some ''Book'',
                      c_isPublic = Some False, c_ownerId = Some ''u1'', c_createdAt = Some 1\<rparr>),
          (''catB'', \<lparr>c_name = Some ''B'', c_color = Some ''bg-red-500'', c_icon = Some ''Book'',
                      c_isPublic = Some False, c_ownerId = Some ''u1'', c_createdAt = Some 2\<rparr>)]
   \<and> (\<exists>ps (qs :: (string \<times> CategoryDoc) list). mset ps = mset (categoryDocs (fetch_world []) Public)
         \<and> sorted (map (\<lambda>kv. the (c_createdAt (snd kv))) ps)
         \<and> map fst (fst (fetchCategories ''u1'' (fetch_world []))) = map fst ps @ map fst qs)"
proof -
  have r1: "rejects (fetch_world [True])"
    by (simp add: rejects_def fetch_world_def example_world_def)
  have r2: "\<not> rejects (fetch_world []) \<and> \<not> rejects (called (fetch_world []))"
    by (simp add: rejects_def called_def fetch_world_def example_world_def)
  have a: "fst (fetchCategories ''u1'' (fetch_world [True])) = []"
    using read_paths_degrade_to_empty
      [of "fetch_world [True]" "''u1''", THEN conjunct1, rule_format, OF disjI1, OF r1]
    by (rule conjunct1)
  have b: "fst (fetchPublicNotes (fetch_world [True])) = []"
    using read_paths_degrade_to_empty
      [of "fetch_world [True]" "''u1''", THEN conjunct2, THEN conjunct1, rule_format, OF r1]
    by (rule conjunct2)
  have c: "fst (fetchCategories ''u1'' (fetch_world []))
       = [(''pc1'', \<lparr>c_name = Some ''P1'', c_color = Some ''bg-blue-500'', c_icon = Some ''Globe'',
                     c_isPublic = Some True, c_ownerId = Some ''admin'', c_createdAt = Some 3\<rparr>),
          (''pc2'', \<lparr>c_name = Some ''P2'', c_color = Some ''bg-blue-500'', c_icon = Some ''Globe'',
                     c_isPublic = Some True, c_ownerId = Some ''admin'', c_createdAt = Some 5\<rparr>),
          (''catA'', \<lparr>c_name = Some ''A'', c_color = Some ''bg-red-500'', c_icon = Some ''Book'',
                      c_isPublic = Some False, c_ownerId = Some ''u1'', c_createdAt = Some 1\<rparr>),
          (''catB'', \<lparr>c_name = Some ''B'', c_color = Some ''bg-red-500'', c_icon = Some ''Book'',
                      c_isPublic = Some False, c_ownerId = Some ''u1'', c_createdAt = Some 2\<rparr>)]"
    by (simp add: fetchCategories_def getDocs_categories_def rejects_def fetch_world_def
          example_world_def orderBy_createdAt_asc_def tag_category_def example_category_doc_def)
  have all: "filter (\<lambda>kv. c_createdAt (snd kv) \<noteq> None) (categoryDocs (fetch_world []) Public)
               = categoryDocs (fetch_world []) Public"
    by (simp add: fetch_world_def example_world_def)
  have d: "\<exists>ps (qs :: (string \<times> CategoryDoc) list). mset ps = mset (categoryDocs (fetch_world []) Public)
         \<and> sorted (map (\<lambda>kv. the (c_createdAt (snd kv))) ps)
         \<and> map fst (fst (fetchCategories ''u1'' (fetch_world []))) = map fst ps @ map fst qs"
  proof -
    from read_paths_degrade_to_empty
      [of "fetch_world []" "''u1''", THEN conjunct2, THEN conjunct2, rule_format, OF r2]
    obtain ps qs where f:
      "mset ps = mset (filter (\<lambda>kv. c_createdAt (snd kv) \<noteq> None) (categoryDocs (fetch_world []) Public))
       \<and> mset qs = mset (filter (\<lambda>kv. c_createdAt (snd kv) \<noteq> None)
                           (categoryDocs (fetch_world []) (Private ''u1'')))
       \<and> sorted (map (\<lambda>kv. the (c_createdAt (snd kv))) ps)
       \<and> sorted (map (\<lambda>kv. the (c_createdAt (snd kv))) qs)
       \<and> fst (fetchCategories ''u1'' (fetch_world []))
               = map (\<lambda>kv. (fst kv, \<lparr>c_name = c_name (snd kv), c_color = c_color (snd kv),
                                   c_icon = c_icon (snd kv), c_isPublic = Some True,
                                   c_ownerId = c_ownerId (snd kv),
                                   c_createdAt = c_createdAt (snd kv)\<rparr>)) ps
                 @ map (\<lambda>kv. (fst kv, \<lparr>c_name = c_name (snd kv), c_color = c_color (snd kv),
                                   c_icon = c_icon (snd kv), c_isPublic = Some False,
                                   c_ownerId = c_ownerId (snd kv),
                                   c_createdAt = c_createdAt (snd kv)\<rparr>)) qs"
      by (elim exE)
    note f1 = f [THEN conjunct1]
      and f3 = f [THEN conjunct2, THEN conjunct2, THEN conjunct1]
      and f5 = f [THEN conjunct2, THEN conjunct2, THEN conjunct2, THEN conjunct2]
    have g1: "mset ps = mset (categoryDocs (fetch_world []) Public)"
      using f1 by (simp only: all)
    have g5: "map fst (fst (fetchCategories ''u1'' (fetch_world []))) = map fst ps @ map fst qs"
      by (simp add: f5 comp_def)
    have "mset ps = mset (categoryDocs (fetch_world []) Public)
         \<and> sorted (map (\<lambda>kv. the (c_createdAt (snd kv))) ps)
         \<and> map fst (fst (fetchCategories ''u1'' (fetch_world []))) = map fst ps @ map fst qs"
      by (intro conjI) (rule g1, rule f3, rule g5)
    then show ?thesis by (intro exI) assumption
  qed
  from r1 a b r2 c d show ?thesis by (intro conjI) (erule conjunct1 conjunct2 | assumption)+
qed

section \<open>Persisting the AI settings\<close>

lemma field_or_else_simps [simp]:
  "field_or_else Absent old = old" "field_or_else Null old = Null"
  "field_or_else (Val v) old = Val v"
  by (simp_all add: field_or_else_def)

lemma str_or_undefined_str_or_null:
  "str_or_undefined (str_or_null x) = (if truthy_str x then x else None)"
  by (cases x) (auto simp: str_or_undefined_def str_or_null_def)

lemma provider_or_undefined_provider_or_null:
  "provider_or_undefined (provider_or_null x) = x"
  by (cases x) (auto simp: provider_or_undefined_def provider_or_null_def)

lemma str_or_null_not_Absent: "str_or_null x \<noteq> Absent"
  by (simp add: str_or_null_def)

lemma provider_or_null_not_Absent: "provider_or_null x \<noteq> Absent"
  by (cases x) (simp_all add: provider_or_null_def)

lemma field_or_else_present: "new \<noteq> Absent \<Longrightarrow> field_or_else new old = new"
  by (cases new) simp_all

text \<open>
  Claim C10. When neither the save nor the following read is rejected by the store:
  the save succeeds; the stored document holds each credential that was a non-empty
  string, and \<^verbatim>\<open>null\<close> for each credential that was absent or empty, whatever was
  stored before; the read returns the non-empty credentials and the preferred provider
  unchanged and the others as absent; and configuring the dispatcher with what was read
  registers no provider for a credential that was absent or empty.
\<close>

theorem ai_settings_round_trip:
  assumes "\<not> rejects w" and "\<not> rejects (called w)"
  shows "fst (saveUserAISettings userId settings w) = Inr ()
    \<and> (\<exists>doc. aiSettings (snd (saveUserAISettings userId settings w)) userId = Some doc
          \<and> s_geminiApiKey doc
              = (if truthy_str (geminiApiKey settings) then Val (the (geminiApiKey settings)) else Null)
          \<and> s_chatgptApiKey doc
              = (if truthy_str (chatgptApiKey settings) then Val (the (chatgptApiKey settings)) else Null))
    \<and> fst (fetchUserAISettings userId (snd (saveUserAISettings userId settings w)))
        = Some \<lparr>geminiApiKey = (if truthy_str (geminiApiKey settings) then geminiApiKey settings else None),
                 chatgptApiKey = (if truthy_str (chatgptApiKey settings) then chatgptApiKey settings else None),
                 preferredProvider = preferredProvider settings\<rparr>
    \<and> (\<not> truthy_str (geminiApiKey settings) \<longrightarrow>
          Map_get (providers (configure
             (the (fst (fetchUserAISettings userId (snd (saveUserAISettings userId settings w))))) svc))
             Gemini = None)
    \<and> (\<not> truthy_str (chatgptApiKey settings) \<longrightarrow>
          Map_get (providers (configure
             (the (fst (fetchUserAISettings userId (snd (saveUserAISettings userId settings w))))) svc))
             ChatGPT = None)"
proof -
  let ?w1 = "snd (saveUserAISettings userId settings w)"
  let ?new = "\<lparr>s_geminiApiKey = str_or_null (geminiApiKey settings),
               s_chatgptApiKey = str_or_null (chatgptApiKey settings),
               s_preferredProvider = provider_or_null (preferredProvider settings),
               s_updatedAt = Val (clock w)\<rparr>"
  from assms(1) have ok: "fst (saveUserAISettings userId settings w) = Inr ()"
    by (simp add: saveUserAISettings_def setDoc_settings_merge_def Let_def)
  have merged: "\<And>old. merge_settings ?new old = ?new"
    by (simp add: merge_settings_def field_or_else_present str_or_null_not_Absent
          provider_or_null_not_Absent)
  from assms(1) have stored: "aiSettings ?w1 userId = Some ?new"
    by (simp add: saveUserAISettings_def setDoc_settings_merge_def Date_now_def merged Let_def
          split: option.splits)
  from assms have rej: "\<not> rejects ?w1"
    by (simp add: saveUserAISettings_def setDoc_settings_merge_def rejects_def called_def Let_def)
  from stored rej have read: "fst (fetchUserAISettings userId ?w1)
        = Some \<lparr>geminiApiKey = (if truthy_str (geminiApiKey settings) then geminiApiKey settings else None),
                 chatgptApiKey = (if truthy_str (chatgptApiKey settings) then chatgptApiKey settings else None),
                 preferredProvider = preferredProvider settings\<rparr>"
    by (simp add: fetchUserAISettings_def getDoc_settings_def str_or_undefined_str_or_null
          provider_or_undefined_provider_or_null)
  have doc: "\<exists>doc. aiSettings ?w1 userId = Some doc
          \<and> s_geminiApiKey doc
              = (if truthy_str (geminiApiKey settings) then Val (the (geminiApiKey settings)) else Null)
          \<and> s_chatgptApiKey doc
              = (if truthy_str (chatgptApiKey settings) then Val (the (chatgptApiKey settings)) else Null)"
    using stored by (simp add: str_or_null_def)
  have g: "\<not> truthy_str (geminiApiKey settings) \<longrightarrow>
          Map_get (providers (configure (the (fst (fetchUserAISettings userId ?w1))) svc)) Gemini = None"
    unfolding read
    by (auto simp: configure_def Map_get_def ChatGPTProvider_def split: option.splits)
  have c: "\<not> truthy_str (chatgptApiKey settings) \<longrightarrow>
          Map_get (providers (configure (the (fst (fetchUserAISettings userId ?w1))) svc)) ChatGPT = None"
    unfolding read
    by (auto simp: configure_def Map_get_def GeminiProvider_def split: option.splits)
  from ok doc read g c show ?thesis by (intro conjI)
qed

theorem ai_settings_round_trip_witness:
  "\<not> rejects settings_world \<and> \<not> rejects (called settings_world)
   \<and> fst (fetchUserAISettings ''u1''
        (snd (saveUserAISettings ''u1''
                \<lparr>geminiApiKey = Some ''g-new'', chatgptApiKey = Some [],
                  preferredProvider = Some Gemini\<rparr> settings_world)))
      = Some \<lparr>geminiApiKey = Some ''g-new'', chatgptApiKey = None, preferredProvider = Some Gemini\<rparr>
   \<and> Map_get (providers (configure
         (the (fst (fetchUserAISettings ''u1''
            (snd (saveUserAISettings ''u1''
                    \<lparr>geminiApiKey = Some ''g-new'', chatgptApiKey = Some [],
                      preferredProvider = Some Gemini\<rparr> settings_world)))))
         \<lparr>providers = [], preferred = None\<rparr>)) ChatGPT = None"
proof -
  have r: "\<not> rejects settings_world" "\<not> rejects (called settings_world)"
    by (simp_all add: rejects_def called_def settings_world_def empty_world_def)
  note t = ai_settings_round_trip [OF r, of "''u1''"
      "\<lparr>geminiApiKey = Some ''g-new'', chatgptApiKey = Some [], preferredProvider = Some Gemini\<rparr>"
      "\<lparr>providers = [], preferred = None\<rparr>"]
  have f3: "fst (fetchUserAISettings ''u1''
        (snd (saveUserAISettings ''u1''
                \<lparr>geminiApiKey = Some ''g-new'', chatgptApiKey = Some [],
                  preferredProvider = Some Gemini\<rparr> settings_world)))
      = Some \<lparr>geminiApiKey = Some ''g-new'', chatgptApiKey = None, preferredProvider = Some Gemini\<rparr>"
    using t [THEN conjunct2, THEN conjunct2, THEN conjunct1] by simp
  have f5: "Map_get (providers (configure
         (the (fst (fetchUserAISettings ''u1''
            (snd (saveUserAISettings ''u1''
                    \<lparr>geminiApiKey = Some ''g-new'', chatgptApiKey = Some [],
                      preferredProvider = Some Gemini\<rparr> settings_world)))))
         \<lparr>providers = [], preferred = None\<rparr>)) ChatGPT = None"
    using t [THEN conjunct2, THEN conjunct2, THEN conjunct2, THEN conjunct2] by simp
  from r f3 f5 show ?thesis by (intro conjI)
qed

section \<open>Search\<close>

lemma take_length_eq_iff: "(take (length q) s = q) = (\<exists>post. s = q @ post)"
  by (metis append_eq_conv_conj append_take_drop_id)

lemma includes_str_occurs_in: "includes_str s q = occurs_in q s"
proof (induction s)
  case Nil
  show ?case by (auto simp: occurs_in_def)
next
  case (Cons c s)
  have "occurs_in q (c # s) = ((\<exists>post. c # s = q @ post) \<or> occurs_in q s)"
  proof
    assume "occurs_in q (c # s)"
    then obtain pre post where eq: "c # s = pre @ q @ post"
      by (auto simp: occurs_in_def)
    show "(\<exists>post. c # s = q @ post) \<or> occurs_in q s"
    proof (cases pre)
      case Nil
      with eq show ?thesis by auto
    next
      case (Cons a pre')
      with eq have "s = pre' @ q @ post" by simp
      then show ?thesis by (auto simp: occurs_in_def)
    qed
  next
    assume "(\<exists>post. c # s = q @ post) \<or> occurs_in q s"
    then show "occurs_in q (c # s)"
    proof
      assume "\<exists>post. c # s = q @ post"
      then obtain post where "c # s = [] @ q @ post" by auto
      then show ?thesis unfolding occurs_in_def by blast
    next
      assume "occurs_in q s"
      then obtain pre post where "s = pre @ q @ post" by (auto simp: occurs_in_def)
      then have "c # s = (c # pre) @ q @ post" by simp
      then show ?thesis unfolding occurs_in_def by blast
    qed
  qed
  with Cons.IH show ?case
    by (simp only: includes_str.simps take_length_eq_iff)
qed

lemma toLowerChar_examples:
  "toLowerChar (CHR ''Q'') = CHR ''q''" "toLowerChar (CHR 0xC9) = CHR 0xE9"
  "toLowerChar (CHR 0xDE) = CHR 0xFE" "toLowerChar (CHR 0xD7) = CHR 0xD7"
  "toLowerChar (CHR 0xDF) = CHR 0xDF" "toLowerChar (CHR ''q'') = CHR ''q''"
  by (simp_all add: toLowerChar_def upperCase_def lowerCase_def)

lemma isWhiteSpace_toLowerChar: "isWhiteSpace (toLowerChar c) = isWhiteSpace c"
  by (simp add: toLowerChar_def upperCase_def lowerCase_def isWhiteSpace_def)

lemma dropWhile_isWhiteSpace_toLowerCase:
  "dropWhile isWhiteSpace (toLowerCase s) = toLowerCase (dropWhile isWhiteSpace s)"
  by (induction s) (simp_all add: toLowerCase_def isWhiteSpace_toLowerChar)

lemma trim_toLowerCase: "trim (toLowerCase s) = toLowerCase (trim s)"
proof -
  have "rev (toLowerCase s) = toLowerCase (rev s)" for s
    by (simp add: toLowerCase_def rev_map)
  then show ?thesis
    by (simp add: trim_def dropWhile_isWhiteSpace_toLowerCase)
qed

lemma toLowerCase_Nil_iff: "(toLowerCase s = []) = (s = [])"
  by (simp add: toLowerCase_def)

lemma note_matches_iff:
  assumes "query \<noteq> []"
  shows "note_matches cs query n =
     (occurs_in query (toLowerCase (title n)) \<or> occurs_in query (toLowerCase (content n))
      \<or> (\<exists>c. find (\<lambda>c. cat_id c = categoryId n) cs = Some c \<and> occurs_in query (toLowerCase (name c)))
      \<or> (\<exists>ts tag. tags n = Some ts \<and> tag \<in> set ts \<and> occurs_in query (toLowerCase tag)))"
proof -
  have ex: "\<And>ts. list_ex (\<lambda>tag. includes_str (toLowerCase tag) query) ts
               = (\<exists>tag. tag \<in> set ts \<and> occurs_in query (toLowerCase tag))"
    by (auto simp: list_ex_iff includes_str_occurs_in)
  show ?thesis
    unfolding note_matches_def Let_def
    by (cases "find (\<lambda>c. cat_id c = categoryId n) cs"; cases "tags n")
       (simp_all add: assms ex includes_str_occurs_in [symmetric])
qed


text \<open>
  Claim C9, as stated, fails for \<open>filteredNotes\<close>: the query \<open>urgent\<close> is a
  case-insensitive substring of a tag of the note, and the note is filtered out.
\<close>

theorem filteredNotes_ignores_tags_counterexample:
  "tags search_note = Some [''Urgent'']
   \<and> includes_str (toLowerCase ''Urgent'') (toLowerCase ''urgent'')
   \<and> filteredNotes [search_note] None ''urgent'' = []"
  by (simp add: filteredNotes_def search_note_def toLowerCase_def toLowerChar_def upperCase_def lowerCase_def)

text \<open>
  Claim C9, amended. Both searches are functions of the in-memory snapshot and the
  query alone; they take no store and return no store, so evaluating them issues no
  call. \<open>filteredNotes\<close> keeps the notes of the active category (all notes when there is
  none) whose lower-cased title or content contains the lower-cased query; tags and
  category names are not consulted. \<open>searchResults\<close> of the dashboard is \<^verbatim>\<open>null\<close>
  exactly when the query is blank; otherwise it keeps the notes for which the trimmed,
  lower-cased query occurs in the lower-cased title, content, name of the note's
  category or one of its tags, and the categories whose lower-cased name contains it.
  Lower-casing is that of \<^verbatim>\<open>toLowerCase\<close> on the code points up to U+00FF.
\<close>

theorem search_is_in_memory_filter:
  "(n \<in> set (filteredNotes ns a q) \<longleftrightarrow>
       n \<in> set ns \<and> (truthy_str a \<longrightarrow> Some (categoryId n) = a)
       \<and> (occurs_in (toLowerCase q) (toLowerCase (title n))
           \<or> occurs_in (toLowerCase q) (toLowerCase (content n))))
   \<and> (searchResults cs ns q = None \<longleftrightarrow> trim q = [])
   \<and> (trim q \<noteq> [] \<longrightarrow>
        (\<exists>mc mn. searchResults cs ns q = Some (mc, mn)
           \<and> (n \<in> set mn \<longleftrightarrow>
                 n \<in> set ns
                 \<and> (occurs_in (toLowerCase (trim q)) (toLowerCase (title n))
                     \<or> occurs_in (toLowerCase (trim q)) (toLowerCase (content n))
                     \<or> (\<exists>c. find (\<lambda>c. cat_id c = categoryId n) cs = Some c
                             \<and> occurs_in (toLowerCase (trim q)) (toLowerCase (name c)))
                     \<or> (\<exists>ts tag. tags n = Some ts \<and> tag \<in> set ts
                             \<and> occurs_in (toLowerCase (trim q)) (toLowerCase tag))))
           \<and> (c \<in> set mc \<longleftrightarrow>
                 c \<in> set cs \<and> occurs_in (toLowerCase (trim q)) (toLowerCase (name c)))))"
proof (intro conjI impI)
  show "n \<in> set (filteredNotes ns a q) \<longleftrightarrow>
       n \<in> set ns \<and> (truthy_str a \<longrightarrow> Some (categoryId n) = a)
       \<and> (occurs_in (toLowerCase q) (toLowerCase (title n))
           \<or> occurs_in (toLowerCase q) (toLowerCase (content n)))"
    by (cases a) (auto simp: filteredNotes_def includes_str_occurs_in)
next
  show "searchResults cs ns q = None \<longleftrightarrow> trim q = []"
    by (simp add: searchResults_def Let_def)
next
  assume ne: "trim q \<noteq> []"
  then have q: "toLowerCase (trim q) \<noteq> []"
    by (simp add: toLowerCase_Nil_iff)
  let ?tq = "toLowerCase (trim q)"
  from ne have res: "searchResults cs ns q
      = Some (filter (\<lambda>cat. includes_str (toLowerCase (name cat)) ?tq) cs,
              filter (note_matches cs ?tq) ns)"
    by (simp add: searchResults_def Let_def trim_toLowerCase)
  show "\<exists>mc mn. searchResults cs ns q = Some (mc, mn)
           \<and> (n \<in> set mn \<longleftrightarrow>
                 n \<in> set ns
                 \<and> (occurs_in ?tq (toLowerCase (title n))
                     \<or> occurs_in ?tq (toLowerCase (content n))
                     \<or> (\<exists>c. find (\<lambda>c. cat_id c = categoryId n) cs = Some c
                             \<and> occurs_in ?tq (toLowerCase (name c)))
                     \<or> (\<exists>ts tag. tags n = Some ts \<and> tag \<in> set ts
                             \<and> occurs_in ?tq (toLowerCase tag))))
           \<and> (c \<in> set mc \<longleftrightarrow> c \<in> set cs \<and> occurs_in ?tq (toLowerCase (name c)))"
    unfolding res
    by (intro exI conjI, rule refl)
       (simp_all add: note_matches_iff [OF q] includes_str_occurs_in)
qed


theorem search_is_in_memory_filter_witness:
  "trim '' URGENT '' \<noteq> []
   \<and> (\<exists>mc mn. searchResults [example_category] [search_note] '' URGENT '' = Some (mc, mn)
         \<and> search_note \<in> set mn)
   \<and> truthy_str (Some ''catA'')
   \<and> search_note \<in> set (filteredNotes [search_note] (Some ''catA'') ''shop'')
   \<and> searchResults [example_category] [search_note] ''   '' = None
   \<and> cafe_note \<in> set (filteredNotes [cafe_note] None (''caf'' @ [CHR 0xE9]))"
proof -
  note t = search_is_in_memory_filter
  have ne: "trim '' URGENT '' \<noteq> []"
    by (simp add: trim_def isWhiteSpace_def)
  have tr: "toLowerCase (trim '' URGENT '') = ''urgent''"
    by (simp add: trim_def isWhiteSpace_def toLowerCase_def toLowerChar_def upperCase_def lowerCase_def)
  have tag: "occurs_in ''urgent'' (toLowerCase ''Urgent'')"
    unfolding includes_str_occurs_in [symmetric]
    by (simp add: toLowerCase_def toLowerChar_def upperCase_def lowerCase_def)
  from t [of search_note "[search_note]" "Some ''catA''" "'' URGENT ''" "[example_category]"
          example_category, THEN conjunct2, THEN conjunct2, rule_format, OF ne]
  obtain mc mn where
    res: "searchResults [example_category] [search_note] '' URGENT '' = Some (mc, mn)"
    and iff: "search_note \<in> set mn \<longleftrightarrow>
                 search_note \<in> set [search_note]
                 \<and> (occurs_in ''urgent'' (toLowerCase (title search_note))
                     \<or> occurs_in ''urgent'' (toLowerCase (content search_note))
                     \<or> (\<exists>c. find (\<lambda>c. cat_id c = categoryId search_note) [example_category] = Some c
                             \<and> occurs_in ''urgent'' (toLowerCase (name c)))
                     \<or> (\<exists>ts tag. tags search_note = Some ts \<and> tag \<in> set ts
                             \<and> occurs_in ''urgent'' (toLowerCase tag)))"
    unfolding tr by (elim exE conjE)
  have "tags search_note = Some [''Urgent''] \<and> ''Urgent'' \<in> set [''Urgent'']
          \<and> occurs_in ''urgent'' (toLowerCase ''Urgent'')"
    using tag by (simp add: search_note_def)
  then have "\<exists>ts tag. tags search_note = Some ts \<and> tag \<in> set ts
                \<and> occurs_in ''urgent'' (toLowerCase tag)"
    by (intro exI)
  with iff have inn: "search_note \<in> set mn" by simp
  from res inn have a: "\<exists>mc mn. searchResults [example_category] [search_note] '' URGENT '' = Some (mc, mn)
         \<and> search_note \<in> set mn"
    by (intro exI conjI)
  have shop: "occurs_in (toLowerCase ''shop'') (toLowerCase (title search_note))"
    unfolding includes_str_occurs_in [symmetric]
    by (simp add: toLowerCase_def toLowerChar_def upperCase_def lowerCase_def search_note_def)
  have cat: "truthy_str (Some ''catA'')" "Some (categoryId search_note) = Some ''catA''"
    by (simp_all add: search_note_def)
  from t [of search_note "[search_note]" "Some ''catA''" "''shop''" "[example_category]"
          example_category, THEN conjunct1] shop cat
  have b: "search_note \<in> set (filteredNotes [search_note] (Some ''catA'') ''shop'')"
    by simp
  have bl: "trim ''   '' = []"
    by (simp add: trim_def isWhiteSpace_def)
  from t [of search_note "[search_note]" "Some ''catA''" "''   ''" "[example_category]"
          example_category, THEN conjunct2, THEN conjunct1] bl
  have c: "searchResults [example_category] [search_note] ''   '' = None"
    by simp
  have cafe: "occurs_in (toLowerCase (''caf'' @ [CHR 0xE9])) (toLowerCase (title cafe_note))"
    unfolding includes_str_occurs_in [symmetric]
    by (simp add: toLowerCase_def toLowerChar_def upperCase_def lowerCase_def cafe_note_def)
  from t [of cafe_note "[cafe_note]" None "''caf'' @ [CHR 0xE9]" "[example_category]"
          example_category, THEN conjunct1] cafe
  have d: "cafe_note \<in> set (filteredNotes [cafe_note] None (''caf'' @ [CHR 0xE9]))"
    by simp
  from ne a cat(1) b c d show ?thesis by (intro conjI)
qed

section \<open>Deleting a category\<close>

lemma note_updated_simps [simp]:
  "categoryDocs (note_updated p i d w) = categoryDocs w"
  "noteDocs (note_updated p i d w) q = (if q = p then Map_set i d (noteDocs w p) else noteDocs w q)"
  "aiSettings (note_updated p i d w) = aiSettings w" "nextId (note_updated p i d w) = nextId w"
  "idSupply (note_updated p i d w) = idSupply w" "clock (note_updated p i d w) = clock w"
  "trace (note_updated p i d w) = trace w @ [NoteUpdated p i]"
  "faults (note_updated p i d w) = tl (faults w)"
  by (simp_all add: note_updated_def)

lemma merge_only_categoryId:
  "merge_note (only_categoryId c) old = old\<lparr>d_categoryId := Some c\<rparr>"
  by (simp add: merge_note_def only_categoryId_def or_else_def)

lemma Map_set_as_map:
  "distinct (map fst m) \<Longrightarrow> map_of m k = Some old \<Longrightarrow>
     Map_set k (f old) m = map (\<lambda>kv. if fst kv = k then (fst kv, f (snd kv)) else kv) m"
proof (induction m)
  case Nil
  then show ?case by simp
next
  case (Cons a m)
  show ?case
  proof (cases "fst a = k")
    case True
    with Cons.prems have "snd a = old" and "\<forall>kv \<in> set m. fst kv \<noteq> k"
      by (auto simp: image_iff)
    with True show ?thesis
      by (cases a) (auto intro!: map_idI [symmetric])
  next
    case False
    with Cons show ?thesis by (cases a) auto
  qed
qed

lemma updateDoc_note_success:
  assumes "updateDoc_note p i d w = (Inr (), w')"
  obtains old where "\<not> rejects w" "map_of (noteDocs w p) i = Some old"
    "w' = note_updated p i (merge_note d old) w"
  using assms by (auto simp: updateDoc_note_def split: if_splits option.splits)

lemma update_all_success:
  "update_all u to ds w = (Inr (), w') \<Longrightarrow> distinct (map fst (noteDocs w (Private u))) \<Longrightarrow>
     noteDocs w' (Private u)
       = map (\<lambda>kv. if fst kv \<in> fst ` set ds then (fst kv, (snd kv)\<lparr>d_categoryId := Some to\<rparr>) else kv)
           (noteDocs w (Private u))
     \<and> trace w' = trace w @ map (\<lambda>kv. NoteUpdated (Private u) (fst kv)) ds
     \<and> categoryDocs w' = categoryDocs w
     \<and> faults w' = drop (length ds) (faults w)"
proof (induction ds arbitrary: w)
  case Nil
  then show ?case by simp
next
  case (Cons d ds)
  obtain r w1 where first: "updateDoc_note (Private u) (fst d) (only_categoryId to) w = (r, w1)"
    by (cases "updateDoc_note (Private u) (fst d) (only_categoryId to) w")
  obtain rs w2 where rest: "update_all u to ds w1 = (rs, w2)"
    by (cases "update_all u to ds w1")
  from Cons.prems(1) first rest have r: "r = Inr ()" and rs: "rs = Inr ()" and w2: "w2 = w'"
    by (auto split: sum.splits)
  from first [unfolded r] obtain old where
    old: "map_of (noteDocs w (Private u)) (fst d) = Some old"
    and w1: "w1 = note_updated (Private u) (fst d) (merge_note (only_categoryId to) old) w"
    by (rule updateDoc_note_success)
  let ?f = "\<lambda>x. x\<lparr>d_categoryId := Some to\<rparr>"
  from Map_set_as_map [OF Cons.prems(2) old, of ?f]
  have docs1: "noteDocs w1 (Private u)
      = map (\<lambda>kv. if fst kv = fst d then (fst kv, ?f (snd kv)) else kv) (noteDocs w (Private u))"
    by (simp add: w1 merge_only_categoryId)
  then have "map fst (noteDocs w1 (Private u)) = map fst (noteDocs w (Private u))"
    by (simp add: comp_def if_distrib [of fst] cong: if_cong)
  with Cons.prems(2) have dist1: "distinct (map fst (noteDocs w1 (Private u)))"
    by simp
  from Cons.IH [OF rest [unfolded rs w2] dist1]
  have ih: "noteDocs w' (Private u)
       = map (\<lambda>kv. if fst kv \<in> fst ` set ds then (fst kv, ?f (snd kv)) else kv)
           (noteDocs w1 (Private u))"
     "trace w' = trace w1 @ map (\<lambda>kv. NoteUpdated (Private u) (fst kv)) ds"
     "categoryDocs w' = categoryDocs w1" "faults w' = drop (length ds) (faults w1)"
    by simp_all
  have "noteDocs w' (Private u)
       = map (\<lambda>kv. if fst kv \<in> fst ` set (d # ds) then (fst kv, ?f (snd kv)) else kv)
           (noteDocs w (Private u))"
    unfolding ih(1) docs1 by (auto simp: comp_def)
  with ih(2,3,4) show ?case
    by (simp add: w1 drop_Suc drop_tl)
qed


lemma update_all_categoryDocs:
  "update_all u to ds w = (r, w') \<Longrightarrow> categoryDocs w' = categoryDocs w"
proof (induction ds arbitrary: w r w')
  case Nil
  then show ?case by simp
next
  case (Cons d ds)
  obtain r1 w1 where first: "updateDoc_note (Private u) (fst d) (only_categoryId to) w = (r1, w1)"
    by (cases "updateDoc_note (Private u) (fst d) (only_categoryId to) w")
  obtain rs w2 where rest: "update_all u to ds w1 = (rs, w2)"
    by (cases "update_all u to ds w1")
  from Cons.prems first rest have "w2 = w'" by simp
  with Cons.IH [OF rest] have "categoryDocs w' = categoryDocs w1" by simp
  moreover from first have "categoryDocs w1 = categoryDocs w"
    by (auto simp: updateDoc_note_def split: if_splits option.splits)
  ultimately show ?case by simp
qed

lemma migrateNotesToCategory_categoryDocs:
  "migrateNotesToCategory u i to w = (r, w') \<Longrightarrow> categoryDocs w' = categoryDocs w"
  by (auto simp: migrateNotesToCategory_def getDocs_notes_def split: if_splits
        dest: update_all_categoryDocs)

lemma key_in_where_categoryId:
  assumes "distinct (map fst m)" and "kv \<in> set m"
  shows "(fst kv \<in> fst ` set (where_categoryId i m)) = (d_categoryId (snd kv) = Some i)"
proof
  assume "fst kv \<in> fst ` set (where_categoryId i m)"
  then obtain kv' where kv': "kv' \<in> set m" "d_categoryId (snd kv') = Some i" "fst kv' = fst kv"
    by (auto simp: where_categoryId_def)
  from assms kv'(1,3) have "kv' = kv"
    by (metis eq_key_imp_eq_value prod.collapse)
  with kv'(2) show "d_categoryId (snd kv) = Some i" by simp
next
  assume "d_categoryId (snd kv) = Some i"
  with assms(2) show "fst kv \<in> fst ` set (where_categoryId i m)"
    by (auto simp: where_categoryId_def)
qed

lemma migrateNotesToCategory_success:
  assumes "migrateNotesToCategory u i to w = (Inr (), w')"
    and "distinct (map fst (noteDocs w (Private u)))"
  shows "noteDocs w' (Private u)
       = map (\<lambda>kv. if d_categoryId (snd kv) = Some i
                    then (fst kv, (snd kv)\<lparr>d_categoryId := Some to\<rparr>) else kv)
           (noteDocs w (Private u))"
    and "trace w' = trace w @ map (\<lambda>kv. NoteUpdated (Private u) (fst kv))
                               (where_categoryId i (noteDocs w (Private u)))"
    and "categoryDocs w' = categoryDocs w"
proof -
  let ?refs = "where_categoryId i (noteDocs w (Private u))"
  from assms(1) have run: "update_all u to ?refs (called w) = (Inr (), w')"
    by (auto simp: migrateNotesToCategory_def getDocs_notes_def split: if_splits)
  from assms(2) have "distinct (map fst (noteDocs (called w) (Private u)))" by simp
  from update_all_success [OF run this]
  have a: "noteDocs w' (Private u)
       = map (\<lambda>kv. if fst kv \<in> fst ` set ?refs then (fst kv, (snd kv)\<lparr>d_categoryId := Some to\<rparr>) else kv)
           (noteDocs w (Private u))"
    and b: "trace w' = trace w @ map (\<lambda>kv. NoteUpdated (Private u) (fst kv)) ?refs"
    and c: "categoryDocs w' = categoryDocs w"
    by simp_all
  from a show "noteDocs w' (Private u)
       = map (\<lambda>kv. if d_categoryId (snd kv) = Some i
                    then (fst kv, (snd kv)\<lparr>d_categoryId := Some to\<rparr>) else kv)
           (noteDocs w (Private u))"
    using key_in_where_categoryId [OF assms(2)] by (simp cong: map_cong)
  from b show "trace w' = trace w @ map (\<lambda>kv. NoteUpdated (Private u) (fst kv)) ?refs" .
  from c show "categoryDocs w' = categoryDocs w" .
qed

lemma delete_and_leave_cases:
  "delete_and_leave uid i st w =
     (if rejects w then (Inl Rejected, st, called w)
      else (Inr (), st\<lparr>st_categories := filter (\<lambda>c. cat_id c \<noteq> i) (st_categories st),
                        activeCategoryId := None, view := DASHBOARD\<rparr>,
            category_deleted (Private uid) i w))"
  by (simp add: delete_and_leave_def deleteCategory_def deleteDoc_category_def)


lemmas handler_run_defs = handleDeleteCategory_def delete_and_leave_def deleteCategory_def
  deleteDoc_category_def migrateNotesToCategory_def getDocs_notes_def where_categoryId_def
  updateDoc_note_def rejects_def remove_doc_def merge_note_def only_categoryId_def or_else_def

text \<open>
  Claim C6 at the state whose only category is \<open>catA\<close>, holding the note \<open>n1\<close>: the
  user confirms the deletion of \<open>catA\<close>. No other category exists, so there is no
  fallback and nothing is migrated; the claim has the deletion refused and no delete
  issued. The handler succeeds, its one write is the delete of \<open>catA\<close> in the store,
  and it drops \<open>catA\<close> from the in-memory list, while \<open>n1\<close> still references \<open>catA\<close> in the
  store and in memory.
\<close>

theorem handleDeleteCategory_deletes_without_fallback:
  "map cat_id (st_categories single_state) = [''catA'']
   \<and> fst (handleDeleteCategory (Some ''u1'') True ''catA'' single_state single_world) = Inr ()
   \<and> trace (snd (snd (handleDeleteCategory (Some ''u1'') True ''catA'' single_state single_world)))
       = [CategoryDeleted (Private ''u1'') ''catA'']
   \<and> categoryDocs (snd (snd (handleDeleteCategory (Some ''u1'') True ''catA'' single_state single_world)))
        (Private ''u1'') = []
   \<and> noteDocs (snd (snd (handleDeleteCategory (Some ''u1'') True ''catA'' single_state single_world)))
        (Private ''u1'') = [(''n1'', example_note ''catA'' ''one'')]
   \<and> st_categories (fst (snd (handleDeleteCategory (Some ''u1'') True ''catA'' single_state
                                  single_world))) = []
   \<and> map categoryId
        (st_notes (fst (snd (handleDeleteCategory (Some ''u1'') True ''catA'' single_state
                                single_world)))) = [''catA'']"
  by (simp add: handler_run_defs single_state_def single_world_def empty_world_def
        example_category_def example_note_obj_def)

text \<open>
  The runs of the handler, case by case. It does nothing (no store call, state
  unchanged) when nobody is signed in, when the category list is empty or when the user
  declines the confirmation. When another category exists, the first such category is
  the fallback: the handler migrates, and when the migration fails it stops there with
  the in-memory state and the stored categories unchanged; when the whole handler
  succeeds, the store's writes are the updates of the user's private notes of the
  deleted category followed by the delete of the category, those notes now reference the
  fallback in the store, the in-memory notes are reassigned the same way, and the
  category is gone from the store and from the in-memory list. When no other category
  exists and the store does not reject, the delete is the only write.
\<close>

lemma handleDeleteCategory_cases:
  assumes "handleDeleteCategory user confirmed i st w = (r, st', w')"
  shows "(user = None \<or> st_categories st = [] \<or> \<not> confirmed \<longrightarrow> r = Inr () \<and> st' = st \<and> w' = w)
    \<and> (\<forall>uid fallbackCat.
          user = Some uid \<and> confirmed
          \<and> find (\<lambda>c. cat_id c \<noteq> i) (st_categories st) = Some fallbackCat \<longrightarrow>
            (fst (migrateNotesToCategory uid i (cat_id fallbackCat) w) \<noteq> Inr () \<longrightarrow>
               r \<noteq> Inr () \<and> st' = st \<and> categoryDocs w' = categoryDocs w)
            \<and> (r = Inr () \<and> distinct (map fst (noteDocs w (Private uid))) \<longrightarrow>
                 trace w' = trace w
                     @ map (\<lambda>kv. NoteUpdated (Private uid) (fst kv))
                         (where_categoryId i (noteDocs w (Private uid)))
                     @ [CategoryDeleted (Private uid) i]
                 \<and> noteDocs w' (Private uid)
                     = map (\<lambda>kv. if d_categoryId (snd kv) = Some i
                                  then (fst kv, (snd kv)\<lparr>d_categoryId := Some (cat_id fallbackCat)\<rparr>)
                                  else kv)
                         (noteDocs w (Private uid))
                 \<and> st_notes st'
                     = map (\<lambda>n. if categoryId n = i then n\<lparr>categoryId := cat_id fallbackCat\<rparr> else n)
                         (st_notes st)
                 \<and> st_categories st' = filter (\<lambda>c. cat_id c \<noteq> i) (st_categories st)
                 \<and> map_of (categoryDocs w' (Private uid)) i = None))
    \<and> (\<forall>uid.
          user = Some uid \<and> confirmed \<and> st_categories st \<noteq> []
          \<and> find (\<lambda>c. cat_id c \<noteq> i) (st_categories st) = None \<and> \<not> rejects w \<longrightarrow>
            r = Inr () \<and> trace w' = trace w @ [CategoryDeleted (Private uid) i]
            \<and> noteDocs w' = noteDocs w \<and> st_notes st' = st_notes st \<and> st_categories st' = []
            \<and> map_of (categoryDocs w' (Private uid)) i = None)"
proof -
  have refused: "user = None \<or> st_categories st = [] \<or> \<not> confirmed \<longrightarrow> r = Inr () \<and> st' = st \<and> w' = w"
    using assms by (auto simp: handleDeleteCategory_def split: option.splits if_splits)
  have fallback: "\<forall>uid fallbackCat.
          user = Some uid \<and> confirmed
          \<and> find (\<lambda>c. cat_id c \<noteq> i) (st_categories st) = Some fallbackCat \<longrightarrow>
            (fst (migrateNotesToCategory uid i (cat_id fallbackCat) w) \<noteq> Inr () \<longrightarrow>
               r \<noteq> Inr () \<and> st' = st \<and> categoryDocs w' = categoryDocs w)
            \<and> (r = Inr () \<and> distinct (map fst (noteDocs w (Private uid))) \<longrightarrow>
                 trace w' = trace w
                     @ map (\<lambda>kv. NoteUpdated (Private uid) (fst kv))
                         (where_categoryId i (noteDocs w (Private uid)))
                     @ [CategoryDeleted (Private uid) i]
                 \<and> noteDocs w' (Private uid)
                     = map (\<lambda>kv. if d_categoryId (snd kv) = Some i
                                  then (fst kv, (snd kv)\<lparr>d_categoryId := Some (cat_id fallbackCat)\<rparr>)
                                  else kv)
                         (noteDocs w (Private uid))
                 \<and> st_notes st'
                     = map (\<lambda>n. if categoryId n = i then n\<lparr>categoryId := cat_id fallbackCat\<rparr> else n)
                         (st_notes st)
                 \<and> st_categories st' = filter (\<lambda>c. cat_id c \<noteq> i) (st_categories st)
                 \<and> map_of (categoryDocs w' (Private uid)) i = None)"
  proof (intro allI impI)
    fix uid fallbackCat
    assume h: "user = Some uid \<and> confirmed
          \<and> find (\<lambda>c. cat_id c \<noteq> i) (st_categories st) = Some fallbackCat"
    then have ne: "st_categories st \<noteq> []" by auto
    obtain rm wm where mig: "migrateNotesToCategory uid i (cat_id fallbackCat) w = (rm, wm)"
      by (cases "migrateNotesToCategory uid i (cat_id fallbackCat) w")
    have failing: "fst (migrateNotesToCategory uid i (cat_id fallbackCat) w) \<noteq> Inr () \<longrightarrow>
               r \<noteq> Inr () \<and> st' = st \<and> categoryDocs w' = categoryDocs w"
    proof
      assume "fst (migrateNotesToCategory uid i (cat_id fallbackCat) w) \<noteq> Inr ()"
      with mig obtain e where "rm = Inl e" by (cases rm) auto
      with assms h ne mig have "r = Inl e" "st' = st" "w' = wm"
        by (auto simp: handleDeleteCategory_def)
      with migrateNotesToCategory_categoryDocs [OF mig]
      show "r \<noteq> Inr () \<and> st' = st \<and> categoryDocs w' = categoryDocs w" by simp
    qed
    have succeeding: "r = Inr () \<and> distinct (map fst (noteDocs w (Private uid))) \<longrightarrow>
                 trace w' = trace w
                     @ map (\<lambda>kv. NoteUpdated (Private uid) (fst kv))
                         (where_categoryId i (noteDocs w (Private uid)))
                     @ [CategoryDeleted (Private uid) i]
                 \<and> noteDocs w' (Private uid)
                     = map (\<lambda>kv. if d_categoryId (snd kv) = Some i
                                  then (fst kv, (snd kv)\<lparr>d_categoryId := Some (cat_id fallbackCat)\<rparr>)
                                  else kv)
                         (noteDocs w (Private uid))
                 \<and> st_notes st'
                     = map (\<lambda>n. if categoryId n = i then n\<lparr>categoryId := cat_id fallbackCat\<rparr> else n)
                         (st_notes st)
                 \<and> st_categories st' = filter (\<lambda>c. cat_id c \<noteq> i) (st_categories st)
                 \<and> map_of (categoryDocs w' (Private uid)) i = None"
    proof
      assume ok: "r = Inr () \<and> distinct (map fst (noteDocs w (Private uid)))"
      let ?st1 = "st\<lparr>st_notes :=
                   map (\<lambda>n. if categoryId n = i then n\<lparr>categoryId := cat_id fallbackCat\<rparr> else n)
                     (st_notes st)\<rparr>"
      from assms h ne mig ok have rm: "rm = Inr ()"
        by (cases rm) (auto simp: handleDeleteCategory_def)
      with assms h ne mig have dl: "delete_and_leave uid i ?st1 wm = (r, st', w')"
        by (simp add: handleDeleteCategory_def)
      with ok have nrej: "\<not> rejects wm"
        and st': "st' = ?st1\<lparr>st_categories := filter (\<lambda>c. cat_id c \<noteq> i) (st_categories ?st1),
                            activeCategoryId := None, view := DASHBOARD\<rparr>"
        and w': "w' = category_deleted (Private uid) i wm"
        by (auto simp: delete_and_leave_cases split: if_splits)
      from ok have dist: "distinct (map fst (noteDocs w (Private uid)))" by simp
      note m = migrateNotesToCategory_success [OF mig [unfolded rm] dist]
      show "trace w' = trace w
                     @ map (\<lambda>kv. NoteUpdated (Private uid) (fst kv))
                         (where_categoryId i (noteDocs w (Private uid)))
                     @ [CategoryDeleted (Private uid) i]
                 \<and> noteDocs w' (Private uid)
                     = map (\<lambda>kv. if d_categoryId (snd kv) = Some i
                                  then (fst kv, (snd kv)\<lparr>d_categoryId := Some (cat_id fallbackCat)\<rparr>)
                                  else kv)
                         (noteDocs w (Private uid))
                 \<and> st_notes st'
                     = map (\<lambda>n. if categoryId n = i then n\<lparr>categoryId := cat_id fallbackCat\<rparr> else n)
                         (st_notes st)
                 \<and> st_categories st' = filter (\<lambda>c. cat_id c \<noteq> i) (st_categories st)
                 \<and> map_of (categoryDocs w' (Private uid)) i = None"
        unfolding w' st' by (simp add: m map_of_remove_doc)
    qed
    from failing succeeding
    show "(fst (migrateNotesToCategory uid i (cat_id fallbackCat) w) \<noteq> Inr () \<longrightarrow>
               r \<noteq> Inr () \<and> st' = st \<and> categoryDocs w' = categoryDocs w)
            \<and> (r = Inr () \<and> distinct (map fst (noteDocs w (Private uid))) \<longrightarrow>
                 trace w' = trace w
                     @ map (\<lambda>kv. NoteUpdated (Private uid) (fst kv))
                         (where_categoryId i (noteDocs w (Private uid)))
                     @ [CategoryDeleted (Private uid) i]
                 \<and> noteDocs w' (Private uid)
                     = map (\<lambda>kv. if d_categoryId (snd kv) = Some i
                                  then (fst kv, (snd kv)\<lparr>d_categoryId := Some (cat_id fallbackCat)\<rparr>)
                                  else kv)
                         (noteDocs w (Private uid))
                 \<and> st_notes st'
                     = map (\<lambda>n. if categoryId n = i then n\<lparr>categoryId := cat_id fallbackCat\<rparr> else n)
                         (st_notes st)
                 \<and> st_categories st' = filter (\<lambda>c. cat_id c \<noteq> i) (st_categories st)
                 \<and> map_of (categoryDocs w' (Private uid)) i = None)"
      by (rule conjI)
  qed
  have alone: "\<forall>uid.
          user = Some uid \<and> confirmed \<and> st_categories st \<noteq> []
          \<and> find (\<lambda>c. cat_id c \<noteq> i) (st_categories st) = None \<and> \<not> rejects w \<longrightarrow>
            r = Inr () \<and> trace w' = trace w @ [CategoryDeleted (Private uid) i]
            \<and> noteDocs w' = noteDocs w \<and> st_notes st' = st_notes st \<and> st_categories st' = []
            \<and> map_of (categoryDocs w' (Private uid)) i = None"
  proof (intro allI impI)
    fix uid
    assume h: "user = Some uid \<and> confirmed \<and> st_categories st \<noteq> []
          \<and> find (\<lambda>c. cat_id c \<noteq> i) (st_categories st) = None \<and> \<not> rejects w"
    then have all: "filter (\<lambda>c. cat_id c \<noteq> i) (st_categories st) = []"
      by (auto simp: find_None_iff filter_empty_conv)
    from assms h have "delete_and_leave uid i st w = (r, st', w')"
      by (auto simp: handleDeleteCategory_def)
    with h all show "r = Inr () \<and> trace w' = trace w @ [CategoryDeleted (Private uid) i]
            \<and> noteDocs w' = noteDocs w \<and> st_notes st' = st_notes st \<and> st_categories st' = []
            \<and> map_of (categoryDocs w' (Private uid)) i = None"
      by (auto simp: delete_and_leave_cases map_of_remove_doc)
  qed
  show ?thesis
    by (intro conjI) (rule refused, rule fallback, rule alone)
qed


lemma handleDeleteCategory_with_fallback_example:
  "fst (handleDeleteCategory (Some ''u1'') True ''catA'' example_state (example_world [])) = Inr ()
   \<and> find (\<lambda>c. cat_id c \<noteq> ''catA'') (st_categories example_state)
       = Some (example_category\<lparr>cat_id := ''catB'', name := ''B''\<rparr>)
   \<and> distinct (map fst (noteDocs (example_world []) (Private ''u1'')))
   \<and> trace (snd (snd (handleDeleteCategory (Some ''u1'') True ''catA'' example_state (example_world []))))
       = [NoteUpdated (Private ''u1'') ''n1'', NoteUpdated (Private ''u1'') ''n3'',
          CategoryDeleted (Private ''u1'') ''catA'']
   \<and> map categoryId
        (st_notes (fst (snd (handleDeleteCategory (Some ''u1'') True ''catA'' example_state
                                (example_world [])))))
       = [''catB'', ''catB'', ''catB'']
   \<and> map cat_id
        (st_categories (fst (snd (handleDeleteCategory (Some ''u1'') True ''catA'' example_state
                                     (example_world [])))))
       = [''catB'']"
proof -
  let ?run = "handleDeleteCategory (Some ''u1'') True ''catA'' example_state (example_world [])"
  let ?catB = "example_category\<lparr>cat_id := ''catB'', name := ''B''\<rparr>"
  have e: "?run = (fst ?run, fst (snd ?run), snd (snd ?run))" by simp
  have r: "fst ?run = Inr ()"
    by (simp add: handler_run_defs example_state_def example_world_def example_category_def
          example_note_def)
  have f: "find (\<lambda>c. cat_id c \<noteq> ''catA'') (st_categories example_state) = Some ?catB"
    by (simp add: example_state_def example_category_def)
  have d: "distinct (map fst (noteDocs (example_world []) (Private ''u1'')))"
    by (simp add: example_world_def)
  from handleDeleteCategory_cases [OF e, THEN conjunct2, THEN conjunct1, rule_format,
         of "''u1''" ?catB, THEN conjunct2, rule_format] f r d
  have c: "trace (snd (snd ?run)) = trace (example_world [])
                     @ map (\<lambda>kv. NoteUpdated (Private ''u1'') (fst kv))
                         (where_categoryId ''catA'' (noteDocs (example_world []) (Private ''u1'')))
                     @ [CategoryDeleted (Private ''u1'') ''catA'']"
    and n: "st_notes (fst (snd ?run))
                     = map (\<lambda>n. if categoryId n = ''catA'' then n\<lparr>categoryId := cat_id ?catB\<rparr> else n)
                         (st_notes example_state)"
    and cs: "st_categories (fst (snd ?run)) = filter (\<lambda>c. cat_id c \<noteq> ''catA'') (st_categories example_state)"
    by simp_all
  from c have c': "trace (snd (snd ?run))
       = [NoteUpdated (Private ''u1'') ''n1'', NoteUpdated (Private ''u1'') ''n3'',
          CategoryDeleted (Private ''u1'') ''catA'']"
    by (simp add: example_world_def where_categoryId_def example_note_def)
  from n have n': "map categoryId (st_notes (fst (snd ?run))) = [''catB'', ''catB'', ''catB'']"
    by (simp add: example_state_def example_note_obj_def example_category_def)
  from cs have cs': "map cat_id (st_categories (fst (snd ?run))) = [''catB'']"
    by (simp add: example_state_def example_category_def)
  from r f d c' n' cs' show ?thesis by (intro conjI)
qed

end
